theory Spec2Isabelle
  imports Complex_Main "HOL-Library.Multiset" "HOL-Library.Product_Lexorder"
begin

section \<open>Card model (models.py)\<close>

text \<open>
  The enums of \<^verbatim>\<open>models.py\<close>.  Python's \<^verbatim>\<open>Enhancement.NONE\<close>, \<^verbatim>\<open>Seal.NONE\<close>,
  \<^verbatim>\<open>Enhancement.GOLD\<close> and \<^verbatim>\<open>Seal.GOLD\<close> live in separate name spaces; here the
  constructors carry the enum's name as a prefix.
\<close>

datatype Enhancement =
  Enh_NONE | Enh_BONUS | Enh_MULT | Enh_WILD | Enh_GLASS | Enh_STEEL | Enh_STONE | Enh_GOLD | Enh_LUCKY

datatype Edition = Ed_BASE | Ed_FOIL | Ed_HOLOGRAPHIC | Ed_POLYCHROME | Ed_NEGATIVE

datatype Seal = Seal_NONE | Seal_GOLD | Seal_RED | Seal_BLUE | Seal_PURPLE

datatype Suit = SPADES | HEARTS | CLUBS | DIAMONDS

text \<open>\<^verbatim>\<open>for suit in Suit\<close> iterates in declaration order.\<close>

definition all_suits :: "Suit list" where
  "all_suits = [SPADES, HEARTS, CLUBS, DIAMONDS]"

datatype Rank =
  TWO | THREE | FOUR | FIVE | SIX | SEVEN | EIGHT | NINE | TEN | JACK | QUEEN | KING | ACE

text \<open>\<^verbatim>\<open>Rank\<close> is an \<^verbatim>\<open>IntEnum\<close>: every comparison and subtraction goes through its value.\<close>

fun rank_value :: "Rank \<Rightarrow> int" where
  "rank_value TWO = 2"
| "rank_value THREE = 3"
| "rank_value FOUR = 4"
| "rank_value FIVE = 5"
| "rank_value SIX = 6"
| "rank_value SEVEN = 7"
| "rank_value EIGHT = 8"
| "rank_value NINE = 9"
| "rank_value TEN = 10"
| "rank_value JACK = 11"
| "rank_value QUEEN = 12"
| "rank_value KING = 13"
| "rank_value ACE = 14"

definition all_ranks :: "Rank list" where
  "all_ranks = [TWO, THREE, FOUR, FIVE, SIX, SEVEN, EIGHT, NINE, TEN, JACK, QUEEN, KING, ACE]"

definition chip_value :: "Rank \<Rightarrow> int" where
  "chip_value r =
     (if rank_value r \<le> 10 then rank_value r
      else if rank_value r = 14 then 11
      else 10)"

datatype HandType =
  HIGH_CARD | PAIR | TWO_PAIR | THREE_OF_A_KIND | STRAIGHT | FLUSH | FULL_HOUSE
| FOUR_OF_A_KIND | STRAIGHT_FLUSH | ROYAL_FLUSH | FIVE_OF_A_KIND | FLUSH_HOUSE | FLUSH_FIVE

fun hand_type_value :: "HandType \<Rightarrow> int" where
  "hand_type_value HIGH_CARD = 1"
| "hand_type_value PAIR = 2"
| "hand_type_value TWO_PAIR = 3"
| "hand_type_value THREE_OF_A_KIND = 4"
| "hand_type_value STRAIGHT = 5"
| "hand_type_value FLUSH = 6"
| "hand_type_value FULL_HOUSE = 7"
| "hand_type_value FOUR_OF_A_KIND = 8"
| "hand_type_value STRAIGHT_FLUSH = 9"
| "hand_type_value ROYAL_FLUSH = 10"
| "hand_type_value FIVE_OF_A_KIND = 11"
| "hand_type_value FLUSH_HOUSE = 12"
| "hand_type_value FLUSH_FIVE = 13"

fun hand_base_chips :: "HandType \<Rightarrow> int" where
  "hand_base_chips HIGH_CARD = 5"
| "hand_base_chips PAIR = 10"
| "hand_base_chips TWO_PAIR = 20"
| "hand_base_chips THREE_OF_A_KIND = 30"
| "hand_base_chips STRAIGHT = 30"
| "hand_base_chips FLUSH = 35"
| "hand_base_chips FULL_HOUSE = 40"
| "hand_base_chips FOUR_OF_A_KIND = 60"
| "hand_base_chips STRAIGHT_FLUSH = 100"
| "hand_base_chips ROYAL_FLUSH = 100"
| "hand_base_chips FIVE_OF_A_KIND = 120"
| "hand_base_chips FLUSH_HOUSE = 140"
| "hand_base_chips FLUSH_FIVE = 160"

fun hand_base_mult :: "HandType \<Rightarrow> int" where
  "hand_base_mult HIGH_CARD = 1"
| "hand_base_mult PAIR = 2"
| "hand_base_mult TWO_PAIR = 2"
| "hand_base_mult THREE_OF_A_KIND = 3"
| "hand_base_mult STRAIGHT = 4"
| "hand_base_mult FLUSH = 4"
| "hand_base_mult FULL_HOUSE = 4"
| "hand_base_mult FOUR_OF_A_KIND = 7"
| "hand_base_mult STRAIGHT_FLUSH = 8"
| "hand_base_mult ROYAL_FLUSH = 8"
| "hand_base_mult FIVE_OF_A_KIND = 12"
| "hand_base_mult FLUSH_HOUSE = 14"
| "hand_base_mult FLUSH_FIVE = 16"

text \<open>The frozen dataclass \<^verbatim>\<open>Card\<close>; equality of cards is equality of all five fields.\<close>

record Card =
  rank :: Rank
  suit :: Suit
  enhancement :: Enhancement
  edition :: Edition
  seal :: Seal

text \<open>\<^verbatim>\<open>Card(rank, suit)\<close> with the three defaulted modifiers.\<close>

definition mk_card :: "Rank \<Rightarrow> Suit \<Rightarrow> Card" where
  "mk_card r s = \<lparr>rank = r, suit = s, enhancement = Enh_NONE, edition = Ed_BASE, seal = Seal_NONE\<rparr>"

definition is_wild :: "Card \<Rightarrow> bool" where
  "is_wild c = (enhancement c = Enh_WILD)"

definition is_stone :: "Card \<Rightarrow> bool" where
  "is_stone c = (enhancement c = Enh_STONE)"

definition has_suit :: "Card \<Rightarrow> Suit \<Rightarrow> bool" where
  "has_suit c s =
     (if is_stone c then False
      else if is_wild c then True
      else suit c = s)"

text \<open>\<^verbatim>\<open>create_standard_deck\<close>: suits outermost, ranks innermost.\<close>

definition create_standard_deck :: "Card list" where
  "create_standard_deck = concat (map (\<lambda>s. map (\<lambda>r. mk_card r s) all_ranks) all_suits)"

section \<open>Python helpers\<close>

datatype py_error = ValueError

text \<open>\<^verbatim>\<open>max(xs, key=k)\<close> on a non-empty list returns the first element whose key is maximal.\<close>

fun py_max_from :: "('a \<Rightarrow> 'k::linorder) \<Rightarrow> 'a \<Rightarrow> 'a list \<Rightarrow> 'a" where
  "py_max_from k best [] = best"
| "py_max_from k best (x # xs) = (if k best < k x then py_max_from k x xs else py_max_from k best xs)"

text \<open>\<^verbatim>\<open>sorted(xs, reverse=True)\<close> on integers.\<close>

definition sorted_desc :: "int list \<Rightarrow> int list" where
  "sorted_desc xs = rev (sort xs)"

text \<open>
  The keys of \<^verbatim>\<open>Counter(xs)\<close> in insertion order (first occurrence); the count of a key
  \<open>k\<close> is \<^term>\<open>count_list xs k\<close>, and a missing key counts 0 as \<^verbatim>\<open>Counter.__getitem__\<close> does.
\<close>

fun counter_keys :: "'a list \<Rightarrow> 'a list" where
  "counter_keys [] = []"
| "counter_keys (x # xs) = x # filter (\<lambda>y. y \<noteq> x) (counter_keys xs)"

definition counter_values :: "'a list \<Rightarrow> int list" where
  "counter_values xs = map (\<lambda>k. int (count_list xs k)) (counter_keys xs)"

text \<open>\<^verbatim>\<open>int(x)\<close> on a float truncates towards zero.  Floats are modelled by exact reals.\<close>

definition py_int :: "real \<Rightarrow> int" where
  "py_int x = (if 0 \<le> x then \<lfloor>x\<rfloor> else \<lceil>x\<rceil>)"

section \<open>Hand evaluation (hand\_evaluation.py)\<close>

record HandResult =
  hand_type :: HandType
  scoring_cards :: "Card list"
  base_chips :: int
  base_mult :: int

definition check_flush :: "Card list \<Rightarrow> bool" where
  "check_flush cards =
     (if length cards < 5 then False
      else
        let wild_count = int (length (filter is_wild cards));
            non_wild = filter (\<lambda>c. \<not> is_wild c) cards
        in if non_wild = [] then True
           else \<exists>s \<in> set all_suits. int (count_list (map suit non_wild) s) + wild_count \<ge> 5)"

text \<open>
  The \<^verbatim>\<open>for\<close>/\<^verbatim>\<open>else\<close> of \<^verbatim>\<open>_is_straight\<close>: the \<^verbatim>\<open>else\<close> branch runs when no adjacent
  pair breaks the descent by one.
\<close>

fun all_descend_by_one :: "int list \<Rightarrow> bool" where
  "all_descend_by_one (a # b # rest) = (a - b = 1 \<and> all_descend_by_one (b # rest))"
| "all_descend_by_one _ = True"

definition is_straight :: "int list \<Rightarrow> bool" where
  "is_straight sorted_ranks =
     (if length sorted_ranks < 5 then False
      else if all_descend_by_one sorted_ranks then True
      else if sorted_ranks = [14, 5, 4, 3, 2] then True
      else False)"

text \<open>
  \<^verbatim>\<open>_identify_hand\<close>.  \<open>rank_counts[c.rank]\<close> is the count of the rank among the normal cards.
  \<^verbatim>\<open>sorted_ranks[0]\<close> and \<^verbatim>\<open>sorted_ranks[-1]\<close> are read only behind \<^verbatim>\<open>is_flush and is_straight\<close>,
  which imply five ranks.
\<close>

definition identify_hand ::
  "Card list \<Rightarrow> int list \<Rightarrow> bool \<Rightarrow> bool \<Rightarrow> int list \<Rightarrow> HandType \<times> Card list" where
  "identify_hand cards count_values is_flush is_str sorted_ranks =
     (let n_cards = length cards;
          rank_count = (\<lambda>c. int (count_list (map rank cards) (rank c)))
      in
      if count_values \<noteq> [] \<and> hd count_values = 5 \<and> is_flush then (FLUSH_FIVE, cards)
      else if count_values \<noteq> [] \<and> hd count_values = 5 then (FIVE_OF_A_KIND, cards)
      else if is_flush \<and> is_str \<and> hd sorted_ranks = 14 \<and> last sorted_ranks = 10
        then (ROYAL_FLUSH, cards)
      else if is_flush \<and> is_str then (STRAIGHT_FLUSH, cards)
      else if count_values \<noteq> [] \<and> hd count_values = 4
        then (FOUR_OF_A_KIND, filter (\<lambda>c. rank_count c = 4) cards)
      else if take 2 count_values = [3, 2] \<and> is_flush then (FLUSH_HOUSE, cards)
      else if take 2 count_values = [3, 2] then (FULL_HOUSE, cards)
      else if is_flush then (FLUSH, cards)
      else if is_str then (STRAIGHT, cards)
      else if count_values \<noteq> [] \<and> hd count_values = 3
        then (THREE_OF_A_KIND, filter (\<lambda>c. rank_count c = 3) cards)
      else if take 2 count_values = [2, 2] then (TWO_PAIR, filter (\<lambda>c. rank_count c = 2) cards)
      else if count_values \<noteq> [] \<and> hd count_values = 2
        then (PAIR, filter (\<lambda>c. rank_count c = 2) cards)
      else if n_cards > 0
        then (HIGH_CARD, [py_max_from (\<lambda>c. rank_value (rank c)) (hd cards) (tl cards)])
      else (HIGH_CARD, []))"

text \<open>The chip loop over the scoring cards of \<^verbatim>\<open>evaluate_hand\<close>.\<close>

fun add_card_chips :: "int \<Rightarrow> Card list \<Rightarrow> int" where
  "add_card_chips acc [] = acc"
| "add_card_chips acc (c # cs) =
     add_card_chips (if enhancement c = Enh_STONE then acc + 50 else acc + chip_value (rank c)) cs"

definition evaluate_hand :: "Card list \<Rightarrow> int \<Rightarrow> py_error + HandResult" where
  "evaluate_hand cards hand_level =
     (if cards = [] then Inl ValueError
      else if length cards > 5 then Inl ValueError
      else
        let stone_cards = filter (\<lambda>c. enhancement c = Enh_STONE) cards;
            normal_cards = filter (\<lambda>c. enhancement c \<noteq> Enh_STONE) cards;
            sorted_ranks = sorted_desc (map (\<lambda>c. rank_value (rank c)) normal_cards);
            is_flush = check_flush normal_cards;
            is_str = is_straight sorted_ranks;
            count_values = sorted_desc (counter_values (map rank normal_cards));
            (ht, sc0) = identify_hand normal_cards count_values is_flush is_str sorted_ranks;
            sc = sc0 @ stone_cards;
            chips0 = hand_base_chips ht + (hand_level - 1) * hand_base_chips ht;
            chips = add_card_chips chips0 sc;
            mult = hand_base_mult ht + (hand_level - 1)
        in Inr \<lparr>hand_type = ht, scoring_cards = sc, base_chips = chips, base_mult = mult\<rparr>)"

section \<open>Deck tracker (deck\_tracker.py)\<close>

text \<open>
  \<^verbatim>\<open>DeckState\<close> with its three piles and the cached counters.  A \<^verbatim>\<open>Counter\<close> read with
  \<^verbatim>\<open>.get(k, 0)\<close> is a total function into the integers.
\<close>

record DeckState =
  remaining_cards :: "Card list"
  cards_played :: "Card list"
  cards_discarded :: "Card list"
  suit_counts :: "Suit \<Rightarrow> int"
  rank_counts :: "Rank \<Rightarrow> int"
  dirty :: bool

definition update_counts :: "DeckState \<Rightarrow> DeckState" where
  "update_counts ds =
     ds\<lparr>suit_counts := (\<lambda>s. int (count_list (map suit (remaining_cards ds)) s)),
        rank_counts := (\<lambda>r. int (count_list (map rank (remaining_cards ds)) r)),
        dirty := False\<rparr>"

text \<open>
  The dataclass constructor followed by \<^verbatim>\<open>__post_init__\<close>: three empty piles are replaced
  by a fresh standard deck, and the counters are computed.
\<close>

definition DeckState_new :: "Card list \<Rightarrow> Card list \<Rightarrow> Card list \<Rightarrow> DeckState" where
  "DeckState_new rem pl di =
     update_counts
       \<lparr>remaining_cards = (if rem = [] \<and> pl = [] \<and> di = [] then create_standard_deck else rem),
        cards_played = pl, cards_discarded = di,
        suit_counts = (\<lambda>_. 0), rank_counts = (\<lambda>_. 0), dirty = True\<rparr>"

definition total_remaining :: "DeckState \<Rightarrow> int" where
  "total_remaining ds = int (length (remaining_cards ds))"

text \<open>
  \<^verbatim>\<open>suit_count\<close> refreshes the cache when it is dirty and then reads it; the value read is
  all that the callers below use.
\<close>

definition suit_count :: "DeckState \<Rightarrow> Suit \<Rightarrow> int" where
  "suit_count ds s = (if dirty ds then suit_counts (update_counts ds) s else suit_counts ds s)"

definition rank_count :: "DeckState \<Rightarrow> Rank \<Rightarrow> int" where
  "rank_count ds r = (if dirty ds then rank_counts (update_counts ds) r else rank_counts ds r)"

text \<open>
  The search loop of \<^verbatim>\<open>remove_card\<close>: the first card of the pile with the rank and suit of
  the argument is popped.
\<close>

fun pop_first_match :: "Card \<Rightarrow> Card list \<Rightarrow> Card list option" where
  "pop_first_match crd [] = None"
| "pop_first_match crd (c # cs) =
     (if rank c = rank crd \<and> suit c = suit crd then Some cs
      else map_option (\<lambda>r. c # r) (pop_first_match crd cs))"

text \<open>\<^verbatim>\<open>remove_card\<close> appends the argument card (not the popped one) to the chosen pile.\<close>

definition remove_card :: "DeckState \<Rightarrow> Card \<Rightarrow> bool \<Rightarrow> bool \<times> DeckState" where
  "remove_card ds crd played =
     (case pop_first_match crd (remaining_cards ds) of
        None \<Rightarrow> (False, ds)
      | Some rem \<Rightarrow>
          (True,
           if played
           then ds\<lparr>remaining_cards := rem, cards_played := cards_played ds @ [crd], dirty := True\<rparr>
           else ds\<lparr>remaining_cards := rem, cards_discarded := cards_discarded ds @ [crd],
                   dirty := True\<rparr>))"

fun remove_cards_loop :: "DeckState \<Rightarrow> Card list \<Rightarrow> bool \<Rightarrow> int \<Rightarrow> int \<times> DeckState" where
  "remove_cards_loop ds [] played removed = (removed, ds)"
| "remove_cards_loop ds (crd # cards) played removed =
     (case remove_card ds crd played of
        (True, ds') \<Rightarrow> remove_cards_loop ds' cards played (removed + 1)
      | (False, ds') \<Rightarrow> remove_cards_loop ds' cards played removed)"

definition remove_cards :: "DeckState \<Rightarrow> Card list \<Rightarrow> bool \<Rightarrow> int \<times> DeckState" where
  "remove_cards ds cards played = remove_cards_loop ds cards played 0"

definition reset_deck :: "DeckState \<Rightarrow> DeckState" where
  "reset_deck ds =
     ds\<lparr>remaining_cards := create_standard_deck, cards_played := [], cards_discarded := [],
        dirty := True\<rparr>"

text \<open>
  \<^verbatim>\<open>from_known_cards\<close>: the cards of the hand, of the played pile and of the discard pile
  are struck from a fresh deck by rank and suit.  \<^verbatim>\<open>None\<close> for an optional pile is the
  empty list here (\<^verbatim>\<open>played = cards_played or []\<close>).
\<close>

definition from_known_cards :: "Card list \<Rightarrow> Card list \<Rightarrow> Card list \<Rightarrow> DeckState" where
  "from_known_cards cards_in_hand played discarded =
     (let all_cards = create_standard_deck;
          seen = set (map (\<lambda>c. (rank c, suit c)) (cards_in_hand @ played @ discarded));
          remaining = filter (\<lambda>c. (rank c, suit c) \<notin> seen) all_cards
      in DeckState_new remaining played discarded)"

text \<open>Sequences of the mutating operations, applied from left to right.\<close>

datatype deck_op = Remove_card Card bool | Remove_cards "Card list" bool | Reset

fun apply_deck_op :: "DeckState \<Rightarrow> deck_op \<Rightarrow> DeckState" where
  "apply_deck_op ds (Remove_card c played) = snd (remove_card ds c played)"
| "apply_deck_op ds (Remove_cards cs played) = snd (remove_cards ds cs played)"
| "apply_deck_op ds Reset = reset_deck ds"

definition run_deck_ops :: "DeckState \<Rightarrow> deck_op list \<Rightarrow> DeckState" where
  "run_deck_ops ds ops = foldl apply_deck_op ds ops"

text \<open>The composition of the three piles by rank and suit, with multiplicity.\<close>

definition deck_key :: "Card \<Rightarrow> Rank \<times> Suit" where
  "deck_key c = (rank c, suit c)"

definition deck_composition :: "DeckState \<Rightarrow> (Rank \<times> Suit) multiset" where
  "deck_composition ds =
     image_mset deck_key
       (mset (remaining_cards ds) + mset (cards_played ds) + mset (cards_discarded ds))"

section \<open>Probability module (probability.py)\<close>

text \<open>\<^verbatim>\<open>math.comb\<close> raises \<^verbatim>\<open>ValueError\<close> on a negative argument.\<close>

definition py_comb :: "int \<Rightarrow> int \<Rightarrow> py_error + int" where
  "py_comb n k = (if n < 0 \<or> k < 0 then Inl ValueError else Inr (int (nat n choose nat k)))"

definition hypergeometric_pmf :: "int \<Rightarrow> int \<Rightarrow> int \<Rightarrow> int \<Rightarrow> py_error + real" where
  "hypergeometric_pmf successes_in_pop population_size draws exactly_k_successes =
     (if draws > population_size then Inr 0
      else if exactly_k_successes > successes_in_pop then Inr 0
      else if exactly_k_successes > draws then Inr 0
      else if draws - exactly_k_successes > population_size - successes_in_pop then Inr 0
      else
        let failures_in_pop = population_size - successes_in_pop;
            failures_needed = draws - exactly_k_successes
        in case py_comb successes_in_pop exactly_k_successes of
             Inl e \<Rightarrow> Inl e
           | Inr c1 \<Rightarrow>
             (case py_comb failures_in_pop failures_needed of
                Inl e \<Rightarrow> Inl e
              | Inr c2 \<Rightarrow>
                (case py_comb population_size draws of
                   Inl e \<Rightarrow> Inl e
                 | Inr denominator \<Rightarrow>
                     if denominator = 0 then Inr 0
                     else Inr (real_of_int (c1 * c2) / real_of_int denominator))))"

text \<open>\<^verbatim>\<open>sum\<close> over a generator whose items may raise: the first raise ends the sum.\<close>

fun sum_results :: "real \<Rightarrow> (py_error + real) list \<Rightarrow> py_error + real" where
  "sum_results acc [] = Inr acc"
| "sum_results acc (Inl e # rs) = Inl e"
| "sum_results acc (Inr p # rs) = sum_results (acc + p) rs"

definition hypergeometric_cdf_at_least :: "int \<Rightarrow> int \<Rightarrow> int \<Rightarrow> int \<Rightarrow> py_error + real" where
  "hypergeometric_cdf_at_least successes_in_pop population_size draws at_least_k_successes =
     (if at_least_k_successes \<le> 0 then Inr 1
      else
        case sum_results 0
               (map (\<lambda>i. hypergeometric_pmf successes_in_pop population_size draws (int i))
                  [0 ..< nat at_least_k_successes]) of
          Inl e \<Rightarrow> Inl e
        | Inr prob_less_than_k \<Rightarrow> Inr (1 - prob_less_than_k))"

text \<open>
  \<^verbatim>\<open>flush_completion_probability\<close>.  \<^verbatim>\<open>hand_suits = Counter(c.suit for c in hand)\<close> counts
  the suit field of every card of the hand.  The result dictionary is an association
  list in insertion order.
\<close>

definition hand_suits :: "Card list \<Rightarrow> Suit \<Rightarrow> int" where
  "hand_suits hand s = int (count_list (map suit hand) s)"

fun flush_loop ::
  "Card list \<Rightarrow> DeckState \<Rightarrow> int \<Rightarrow> Suit list \<Rightarrow> (Suit \<times> real) list
     \<Rightarrow> py_error + (Suit \<times> real) list" where
  "flush_loop hand ds draws [] results = Inr results"
| "flush_loop hand ds draws (s # ss) results =
     (let cards_in_hand = hand_suits hand s;
          needed = max 0 (5 - cards_in_hand)
      in if needed = 0 then flush_loop hand ds draws ss (results @ [(s, 1)])
         else if needed > draws then flush_loop hand ds draws ss (results @ [(s, 0)])
         else
           (case hypergeometric_cdf_at_least (suit_count ds s) (total_remaining ds) draws needed of
              Inl e \<Rightarrow> Inl e
            | Inr p \<Rightarrow> flush_loop hand ds draws ss (results @ [(s, p)])))"

definition flush_completion_probability ::
  "Card list \<Rightarrow> DeckState \<Rightarrow> int \<Rightarrow> py_error + (Suit \<times> real) list" where
  "flush_completion_probability hand ds draws =
     (if total_remaining ds = 0 \<or> draws = 0
      then Inr (map (\<lambda>s. (s, if hand_suits hand s \<ge> 5 then 1 else 0)) all_suits)
      else flush_loop hand ds draws all_suits [])"

text \<open>
  The per-suit rule in the words of the specification: the cards of the hand that match
  the suit are counted with \<^verbatim>\<open>Card.has_suit\<close>, so that a wild card matches every suit.
\<close>

definition spec_cards_in_hand :: "Card list \<Rightarrow> Suit \<Rightarrow> int" where
  "spec_cards_in_hand hand s = int (length (filter (\<lambda>c. has_suit c s) hand))"

definition spec_flush_probability :: "Card list \<Rightarrow> DeckState \<Rightarrow> int \<Rightarrow> Suit \<Rightarrow> py_error + real" where
  "spec_flush_probability hand ds draws s =
     (let needed = max 0 (5 - spec_cards_in_hand hand s)
      in if needed = 0 then Inr 1
         else if needed > draws then Inr 0
         else hypergeometric_cdf_at_least (suit_count ds s) (total_remaining ds) draws needed)"

text \<open>
  The value that one pass of the loop of \<^verbatim>\<open>flush_completion_probability\<close> stores for
  a suit (used to state the loop's result in closed form).
\<close>

definition flush_entry :: "Card list \<Rightarrow> DeckState \<Rightarrow> int \<Rightarrow> Suit \<Rightarrow> real" where
  "flush_entry hand ds draws s =
     (let needed = max 0 (5 - hand_suits hand s)
      in if needed = 0 then 1
         else if needed > draws then 0
         else (case hypergeometric_cdf_at_least (suit_count ds s) (total_remaining ds) draws needed of
                 Inr p \<Rightarrow> p | Inl _ \<Rightarrow> 0))"

text \<open>A wild Two of Hearts: \<^verbatim>\<open>Card(Rank.TWO, Suit.HEARTS, enhancement=Enhancement.WILD)\<close>.\<close>

definition wild_heart :: Card where
  "wild_heart = (mk_card TWO HEARTS)\<lparr>enhancement := Enh_WILD\<rparr>"

section \<open>Game state (models.py)\<close>

record Joker =
  joker_id :: string
  joker_name :: string
  level :: int

text \<open>
  The dataclass \<^verbatim>\<open>GameState\<close>; the fields carry the prefix \<open>gs_\<close> to keep them apart from
  the fields of the simulator.  \<^verbatim>\<open>hand_levels\<close> is a dictionary read with \<^verbatim>\<open>.get(ht, 1)\<close>.
\<close>

record GameState =
  gs_deck :: "Card list"
  gs_hand :: "Card list"
  gs_discarded :: "Card list"
  gs_jokers :: "Joker list"
  gs_money :: int
  gs_ante :: int
  gs_round_in_ante :: int
  gs_hands_remaining :: int
  gs_discards_remaining :: int
  gs_current_chips :: int
  gs_blind_requirement :: int
  gs_rng_seed :: "int option"
  gs_hand_levels :: "HandType \<Rightarrow> int option"

definition hand_levels_get :: "GameState \<Rightarrow> HandType \<Rightarrow> int" where
  "hand_levels_get gs ht = (case gs_hand_levels gs ht of Some l \<Rightarrow> l | None \<Rightarrow> 1)"

text \<open>\<^verbatim>\<open>GameState()\<close> with every default.\<close>

definition GameState_default :: GameState where
  "GameState_default =
     \<lparr>gs_deck = [], gs_hand = [], gs_discarded = [], gs_jokers = [], gs_money = 4, gs_ante = 1,
      gs_round_in_ante = 1, gs_hands_remaining = 4, gs_discards_remaining = 3,
      gs_current_chips = 0, gs_blind_requirement = 300, gs_rng_seed = None,
      gs_hand_levels = (\<lambda>ht. Some 1)\<rparr>"

section \<open>Jokers (jokers.py)\<close>

datatype EffectTiming =
  ON_SCORE | ON_CARD_SCORE | ON_HAND_PLAYED | ON_DISCARD | END_OF_ROUND | ON_SHOP | ON_BLIND_SELECT

datatype JokerRarity = COMMON | UNCOMMON | RARE | LEGENDARY

record JokerDefinition =
  jd_id :: string
  jd_name :: string
  description :: string
  rarity :: JokerRarity
  base_cost :: int
  timing :: EffectTiming

text \<open>
  \<^verbatim>\<open>JokerInstance\<close>: the field \<^verbatim>\<open>definition\<close> is called \<open>jdef\<close> here.  The state dictionary
  is an association list from keys to integers, which covers the state read by the
  calculators embedded below; \<^verbatim>\<open>state.get(k, d)\<close> is \<open>state_get\<close>.
\<close>

record JokerInstance =
  jdef :: JokerDefinition
  state :: "(string \<times> int) list"

definition state_get :: "(string \<times> int) list \<Rightarrow> string \<Rightarrow> int \<Rightarrow> int" where
  "state_get st k d = (case map_of st k of Some v \<Rightarrow> v | None \<Rightarrow> d)"

record JokerEffect =
  add_chips :: int
  add_mult :: int
  mult_mult :: real
  retrigger :: int
  je_money :: int

text \<open>\<^verbatim>\<open>JokerEffect()\<close> and \<^verbatim>\<open>JokerEffect.__bool__\<close>.\<close>

definition JokerEffect_default :: JokerEffect where
  "JokerEffect_default = \<lparr>add_chips = 0, add_mult = 0, mult_mult = 1, retrigger = 0, je_money = 0\<rparr>"

definition JokerEffect_bool :: "JokerEffect \<Rightarrow> bool" where
  "JokerEffect_bool e =
     (add_chips e \<noteq> 0 \<or> add_mult e \<noteq> 0 \<or> mult_mult e \<noteq> 1 \<or> retrigger e > 0 \<or> je_money e \<noteq> 0)"

text \<open>The context handed to the calculators (\<^verbatim>\<open>ScoringContext\<close> of scoring.py).\<close>

record ScoringContext =
  ctx_played_cards :: "Card list"
  ctx_scoring_cards :: "Card list"
  ctx_cards_in_hand :: "Card list"
  ctx_hand_result :: HandResult
  ctx_game_state :: GameState
  ctx_current_chips :: int
  ctx_current_mult :: real

text \<open>
  Python's \<^verbatim>\<open>random\<close> module.  Its generators are not embedded: the state of the
  module-level generator has type \<open>'g\<close>, the state of a generator object
  (\<^verbatim>\<open>random.Random\<close>) has type \<open>'r\<close>, and the operations the code uses are the fields of
  this record: \<^verbatim>\<open>random.randint\<close>, \<^verbatim>\<open>random.Random(seed)\<close>, \<^verbatim>\<open>rng.random()\<close> and
  \<^verbatim>\<open>rng.shuffle(cards)\<close>.  Every operation returns its value (for the shuffle, the
  shuffled list) and the next state.
\<close>

record ('g, 'r) py_random =
  randint :: "int \<Rightarrow> int \<Rightarrow> 'g \<Rightarrow> int \<times> 'g"
  Random_seeded :: "int \<Rightarrow> 'r"
  rng_random :: "'r \<Rightarrow> real \<times> 'r"
  rng_shuffle :: "'r \<Rightarrow> Card list \<Rightarrow> Card list \<times> 'r"

text \<open>
  A calculator gets the joker and the context.  It may write to the joker's state
  dictionary and may draw from the module-level generator, so it returns the effect,
  the joker and the generator as it leaves them.
\<close>

type_synonym 'g calculator =
  "JokerInstance \<Rightarrow> ScoringContext \<Rightarrow> 'g \<Rightarrow> JokerEffect \<times> JokerInstance \<times> 'g"

definition joker_effect :: "'g calculator" where
  "joker_effect j ctx g = (JokerEffect_default\<lparr>add_mult := 4\<rparr>, j, g)"

definition misprint_effect :: "('g, 'r) py_random \<Rightarrow> 'g calculator" where
  "misprint_effect rm j ctx g =
     (let (v, g') = randint rm 0 23 g in (JokerEffect_default\<lparr>add_mult := v\<rparr>, j, g'))"

definition fortune_teller_effect :: "'g calculator" where
  "fortune_teller_effect j ctx g =
     (let tarots_used = state_get (state j) ''tarots_used'' 0
      in (JokerEffect_default\<lparr>add_mult := tarots_used\<rparr>, j, g))"

definition cavendish_effect :: "'g calculator" where
  "cavendish_effect j ctx g = (JokerEffect_default\<lparr>mult_mult := 3\<rparr>, j, g)"

definition throwback_effect :: "'g calculator" where
  "throwback_effect j ctx g =
     (let blinds_skipped = state_get (state j) ''blinds_skipped'' 0
      in if blinds_skipped > 0
         then (JokerEffect_default\<lparr>mult_mult := 1 + 0.25 * real_of_int blinds_skipped\<rparr>, j, g)
         else (JokerEffect_default, j, g))"

text \<open>
  The dispatch dictionary \<^verbatim>\<open>JOKER_CALCULATORS\<close> has 150 entries.  The scoring functions
  below take the dictionary as a parameter; these are the entries embedded here.
\<close>

definition JOKER_CALCULATORS_embedded ::
  "('g, 'r) py_random \<Rightarrow> string \<Rightarrow> 'g calculator option" where
  "JOKER_CALCULATORS_embedded rm =
     map_of [(''joker'', joker_effect),
             (''misprint'', misprint_effect rm),
             (''fortune_teller'', fortune_teller_effect),
             (''cavendish'', cavendish_effect),
             (''throwback'', throwback_effect)]"

text \<open>\<^verbatim>\<open>JokerInstance.calculate_effect\<close>: an id without calculator gives the empty effect.\<close>

definition calculate_effect ::
  "(string \<Rightarrow> 'g calculator option) \<Rightarrow> JokerInstance \<Rightarrow> ScoringContext \<Rightarrow> 'g
     \<Rightarrow> JokerEffect \<times> JokerInstance \<times> 'g" where
  "calculate_effect calcs j ctx g =
     (case calcs (jd_id (jdef j)) of
        Some calculator \<Rightarrow> calculator j ctx g
      | None \<Rightarrow> (JokerEffect_default, j, g))"
section \<open>Scoring engine (scoring.py)\<close>

record CardEffect =
  ce_card :: Card
  ce_chips :: int
  ce_mult :: int
  ce_mult_mult :: real
  ce_money :: int
  ce_retrigger :: int
  ce_destroyed :: bool

text \<open>
  \<^verbatim>\<open>ScoringBreakdown\<close>.  The three fields that share a name with a field of \<^verbatim>\<open>HandResult\<close>
  carry the prefix \<open>sb_\<close>.  An entry of \<^verbatim>\<open>joker_effects\<close> is the tuple
  (name, chips added, mult added, mult multiplied).
\<close>

record ScoringBreakdown =
  sb_hand_type :: HandType
  sb_base_chips :: int
  sb_base_mult :: int
  card_effects :: "CardEffect list"
  joker_effects :: "(string \<times> int \<times> int \<times> real) list"
  money_earned :: int
  destroyed_cards :: "Card list"
  final_chips :: int
  final_mult :: real
  final_score :: int

text \<open>
  \<^verbatim>\<open>apply_card_modifiers(card, rng)\<close>: enhancement, then edition, then seal.  \<open>rng\<close> is
  \<^verbatim>\<open>None\<close> or a seeded generator; the function returns the generator as it leaves it.
\<close>

definition apply_card_modifiers ::
  "('g, 'r) py_random \<Rightarrow> Card \<Rightarrow> 'r option \<Rightarrow> CardEffect \<times> 'r option" where
  "apply_card_modifiers rm crd rng =
     (let effect = \<lparr>ce_card = crd, ce_chips = 0, ce_mult = 0, ce_mult_mult = 1, ce_money = 0,
                     ce_retrigger = 0, ce_destroyed = False\<rparr>;
          (effect, rng) =
            (case enhancement crd of
               Enh_BONUS \<Rightarrow> (effect\<lparr>ce_chips := ce_chips effect + 30\<rparr>, rng)
             | Enh_MULT \<Rightarrow> (effect\<lparr>ce_mult := ce_mult effect + 4\<rparr>, rng)
             | Enh_GLASS \<Rightarrow>
                 (let effect = effect\<lparr>ce_mult_mult := ce_mult_mult effect * 2\<rparr>
                  in case rng of
                       None \<Rightarrow> (effect, None)
                     | Some r \<Rightarrow>
                         (let (x, r) = rng_random rm r
                          in (if x < 0.25 then effect\<lparr>ce_destroyed := True\<rparr> else effect, Some r)))
             | Enh_LUCKY \<Rightarrow>
                 (case rng of
                    None \<Rightarrow> (effect, None)
                  | Some r \<Rightarrow>
                      (let (x, r) = rng_random rm r;
                           effect = (if x < 0.2 then effect\<lparr>ce_mult := ce_mult effect + 20\<rparr>
                                     else effect);
                           (y, r) = rng_random rm r;
                           effect = (if y < 1 / 15 then effect\<lparr>ce_money := ce_money effect + 20\<rparr>
                                     else effect)
                       in (effect, Some r)))
             | _ \<Rightarrow> (effect, rng));
          effect =
            (case edition crd of
               Ed_FOIL \<Rightarrow> effect\<lparr>ce_chips := ce_chips effect + 50\<rparr>
             | Ed_HOLOGRAPHIC \<Rightarrow> effect\<lparr>ce_mult := ce_mult effect + 10\<rparr>
             | Ed_POLYCHROME \<Rightarrow> effect\<lparr>ce_mult_mult := ce_mult_mult effect * 1.5\<rparr>
             | _ \<Rightarrow> effect);
          effect =
            (case seal crd of
               Seal_GOLD \<Rightarrow> effect\<lparr>ce_money := ce_money effect + 3\<rparr>
             | Seal_RED \<Rightarrow> effect\<lparr>ce_retrigger := ce_retrigger effect + 1\<rparr>
             | _ \<Rightarrow> effect)
      in (effect, rng))"

fun steel_loop :: "real \<Rightarrow> Card list \<Rightarrow> real" where
  "steel_loop mm [] = mm"
| "steel_loop mm (c # cs) = steel_loop (if enhancement c = Enh_STEEL then mm * 1.5 else mm) cs"

definition apply_steel_cards_in_hand :: "Card list \<Rightarrow> int \<times> real" where
  "apply_steel_cards_in_hand cards_in_hand = (0, steel_loop 1 cards_in_hand)"

text \<open>The inner loop \<^verbatim>\<open>for _ in range(triggers)\<close> on (total chips, total mult, total money).\<close>

fun apply_triggers :: "nat \<Rightarrow> CardEffect \<Rightarrow> int \<times> real \<times> int \<Rightarrow> int \<times> real \<times> int" where
  "apply_triggers 0 ce acc = acc"
| "apply_triggers (Suc n) ce (total_chips, total_mult, total_money) =
     apply_triggers n ce
       (total_chips + ce_chips ce,
        (total_mult + real_of_int (ce_mult ce)) * ce_mult_mult ce,
        total_money + ce_money ce)"

text \<open>
  The loop over the scoring cards.  It carries the seeded generator, the three totals,
  the recorded card effects and the destroyed cards.
\<close>

fun card_loop ::
  "('g, 'r) py_random \<Rightarrow> Card list \<Rightarrow> 'r option \<Rightarrow> int \<times> real \<times> int \<Rightarrow> CardEffect list
     \<Rightarrow> Card list \<Rightarrow> (int \<times> real \<times> int) \<times> CardEffect list \<times> Card list" where
  "card_loop rm [] rng totals effs destroyed = (totals, effs, destroyed)"
| "card_loop rm (c # cs) rng totals effs destroyed =
     (let (card_effect, rng) = apply_card_modifiers rm c rng;
          triggers = 1 + ce_retrigger card_effect;
          totals = apply_triggers (nat triggers) card_effect totals
      in card_loop rm cs rng totals (effs @ [card_effect])
           (if ce_destroyed card_effect then destroyed @ [c] else destroyed))"

text \<open>
  The loop over the jokers, in order.  It carries the context, the running totals, the
  recorded joker effects, the module-level generator and the jokers already visited (as
  their calculators left them).
\<close>

fun joker_loop ::
  "(string \<Rightarrow> 'g calculator option) \<Rightarrow> JokerInstance list \<Rightarrow> ScoringContext \<Rightarrow> int \<Rightarrow> real
     \<Rightarrow> (string \<times> int \<times> int \<times> real) list \<Rightarrow> 'g \<Rightarrow> JokerInstance list
     \<Rightarrow> int \<times> real \<times> (string \<times> int \<times> int \<times> real) list \<times> JokerInstance list \<times> 'g" where
  "joker_loop calcs [] ctx total_chips total_mult jeffs g visited =
     (total_chips, total_mult, jeffs, visited, g)"
| "joker_loop calcs (j # js) ctx total_chips total_mult jeffs g visited =
     (let (effect, j, g) = calculate_effect calcs j ctx g
      in if JokerEffect_bool effect
         then
           let total_chips = (if add_chips effect \<noteq> 0 then total_chips + add_chips effect
                              else total_chips);
               total_mult = (if add_mult effect \<noteq> 0 then total_mult + real_of_int (add_mult effect)
                             else total_mult);
               total_mult = (if mult_mult effect \<noteq> 1 then total_mult * mult_mult effect
                             else total_mult);
               jeffs = jeffs @ [(jd_name (jdef j), add_chips effect, add_mult effect, mult_mult effect)];
               ctx = ctx\<lparr>ctx_current_chips := total_chips, ctx_current_mult := total_mult\<rparr>
           in joker_loop calcs js ctx total_chips total_mult jeffs g (visited @ [j])
         else joker_loop calcs js ctx total_chips total_mult jeffs g (visited @ [j]))"

text \<open>
  \<^verbatim>\<open>calculate_score\<close>.  The result is the breakdown together with the jokers and the
  module-level generator as the call leaves them; a raise is \<open>Inl\<close>.
\<close>

definition calculate_score ::
  "('g, 'r) py_random \<Rightarrow> (string \<Rightarrow> 'g calculator option) \<Rightarrow> Card list \<Rightarrow> JokerInstance list
     \<Rightarrow> GameState \<Rightarrow> Card list option \<Rightarrow> int option \<Rightarrow> 'g
     \<Rightarrow> py_error + (ScoringBreakdown \<times> JokerInstance list \<times> 'g)" where
  "calculate_score rm calcs played_cards jokers game_state cards_in_hand rng_seed g =
     (if played_cards = [] then Inl ValueError
      else
        let cards_in_hand = (case cards_in_hand of None \<Rightarrow> [] | Some h \<Rightarrow> h);
            rng = map_option (Random_seeded rm) rng_seed
        in case evaluate_hand played_cards 1 of
             Inl e \<Rightarrow> Inl e
           | Inr hand_result \<Rightarrow>
             (let hand_level = hand_levels_get game_state (hand_type hand_result)
              in case evaluate_hand played_cards hand_level of
                   Inl e \<Rightarrow> Inl e
                 | Inr hand_result \<Rightarrow>
                   (let ((total_chips, total_mult, total_money), ceffs, destroyed) =
                          card_loop rm (scoring_cards hand_result) rng
                            (base_chips hand_result, real_of_int (base_mult hand_result), 0) [] [];
                        (_, steel_mult) = apply_steel_cards_in_hand cards_in_hand;
                        total_mult = (if steel_mult \<noteq> 1 then total_mult * steel_mult
                                      else total_mult);
                        ctx = \<lparr>ctx_played_cards = played_cards,
                               ctx_scoring_cards = scoring_cards hand_result,
                               ctx_cards_in_hand = cards_in_hand,
                               ctx_hand_result = hand_result,
                               ctx_game_state = game_state,
                               ctx_current_chips = total_chips,
                               ctx_current_mult = total_mult\<rparr>;
                        (total_chips, total_mult, jeffs, jokers, g) =
                          joker_loop calcs jokers ctx total_chips total_mult [] g []
                    in Inr (\<lparr>sb_hand_type = hand_type hand_result,
                              sb_base_chips = base_chips hand_result,
                              sb_base_mult = base_mult hand_result,
                              card_effects = ceffs,
                              joker_effects = jeffs,
                              money_earned = total_money,
                              destroyed_cards = destroyed,
                              final_chips = total_chips,
                              final_mult = total_mult,
                              final_score = py_int (real_of_int total_chips * total_mult)\<rparr>,
                            jokers, g))))"


text \<open>
  Entries of the catalogue \<^verbatim>\<open>JOKERS\<close> for the calculators embedded above, and
  \<^verbatim>\<open>JokerDefinition.create_instance\<close>.
\<close>

definition JOKERS_joker :: JokerDefinition where
  "JOKERS_joker =
     \<lparr>jd_id = ''joker'', jd_name = ''Joker'', description = ''+4 Mult'',
      rarity = COMMON, base_cost = 2, timing = ON_SCORE\<rparr>"

definition JOKERS_misprint :: JokerDefinition where
  "JOKERS_misprint =
     \<lparr>jd_id = ''misprint'', jd_name = ''Misprint'', description = ''+0-23 Mult'',
      rarity = COMMON, base_cost = 4, timing = ON_SCORE\<rparr>"

definition JOKERS_cavendish :: JokerDefinition where
  "JOKERS_cavendish =
     \<lparr>jd_id = ''cavendish'', jd_name = ''Cavendish'',
      description = ''X3 Mult, 1 in 1000 chance this card is destroyed at end of round'',
      rarity = COMMON, base_cost = 4, timing = ON_SCORE\<rparr>"

definition JOKERS_fortune_teller :: JokerDefinition where
  "JOKERS_fortune_teller =
     \<lparr>jd_id = ''fortune_teller'', jd_name = ''Fortune Teller'',
      description = ''+1 Mult per Tarot card used this run'',
      rarity = COMMON, base_cost = 6, timing = ON_SCORE\<rparr>"

definition JOKERS_throwback :: JokerDefinition where
  "JOKERS_throwback =
     \<lparr>jd_id = ''throwback'', jd_name = ''Throwback'',
      description = ''X0.25 Mult for each Blind skipped this run'',
      rarity = UNCOMMON, base_cost = 6, timing = ON_SCORE\<rparr>"

definition create_instance :: "JokerDefinition \<Rightarrow> JokerInstance" where
  "create_instance d = \<lparr>jdef = d, state = []\<rparr>"

text \<open>
  A generator for concrete evaluations.  Its state is the list of the values it is
  going to deliver: \<^verbatim>\<open>randint(a, b)\<close> delivers the next value of the list, brought into
  the range from \<open>a\<close> to \<open>b\<close>, and \<open>a\<close> when the list is used up.  The generator objects
  are given in the same way, every seed giving the empty list; their shuffle is the one
  that leaves every card in its place.
\<close>

definition tape_random :: "(int list, real list) py_random" where
  "tape_random =
     \<lparr>randint = (\<lambda>a b g. case g of [] \<Rightarrow> (a, []) | v # vs \<Rightarrow> (max a (min b v), vs)),
      Random_seeded = (\<lambda>seed. []),
      rng_random = (\<lambda>r. case r of [] \<Rightarrow> (0, []) | x # xs \<Rightarrow> (x, xs)),
      rng_shuffle = (\<lambda>r cards. (cards, r))\<rparr>"

text \<open>
  A Throwback whose state records one skipped blind: it multiplies the mult by 1.25.
\<close>

definition throwback_one :: JokerInstance where
  "throwback_one = (create_instance JOKERS_throwback)\<lparr>state := [(''blinds_skipped'', 1)]\<rparr>"

text \<open>
  What a caller of \<^verbatim>\<open>calculate_score\<close> can observe apart from the module-level
  generator: the raise, or the breakdown and the jokers.
\<close>

definition drop_generator ::
  "py_error + (ScoringBreakdown \<times> JokerInstance list \<times> 'g)
     \<Rightarrow> py_error + (ScoringBreakdown \<times> JokerInstance list)" where
  "drop_generator r = (case r of Inl e \<Rightarrow> Inl e | Inr (bd, js, g) \<Rightarrow> Inr (bd, js))"

text \<open>
  A joker whose calculator does not draw from the module-level generator: the effect and
  the joker it leaves do not depend on the generator's state.
\<close>

definition ignores_generator :: "(string \<Rightarrow> 'g calculator option) \<Rightarrow> JokerInstance \<Rightarrow> bool" where
  "ignores_generator calcs j =
     (\<forall>ctx g g'. fst (calculate_effect calcs j ctx g) = fst (calculate_effect calcs j ctx g')
               \<and> fst (snd (calculate_effect calcs j ctx g)) = fst (snd (calculate_effect calcs j ctx g')))"

section \<open>Game simulator (simulator.py)\<close>

datatype GamePhase = BLIND_SELECT | PLAYING | SHOP | GAME_OVER

datatype BlindType = SMALL | BIG | BOSS

fun BLIND_BASE_CHIPS :: "BlindType \<Rightarrow> int" where
  "BLIND_BASE_CHIPS SMALL = 300"
| "BLIND_BASE_CHIPS BIG = 450"
| "BLIND_BASE_CHIPS BOSS = 600"

fun BLIND_REWARDS :: "BlindType \<Rightarrow> int" where
  "BLIND_REWARDS SMALL = 3"
| "BLIND_REWARDS BIG = 4"
| "BLIND_REWARDS BOSS = 5"

text \<open>\<^verbatim>\<open>ANTE_SCALING.get(ante, 15.0 + (ante - 8) * 5)\<close>.\<close>

definition ANTE_SCALING_get :: "int \<Rightarrow> real" where
  "ANTE_SCALING_get a =
     (if a = 1 then 1 else if a = 2 then 1.5 else if a = 3 then 2 else if a = 4 then 3
      else if a = 5 then 4 else if a = 6 then 6 else if a = 7 then 9 else if a = 8 then 15
      else 15 + real_of_int ((a - 8) * 5))"

text \<open>
  \<^verbatim>\<open>ActionResult\<close>; its fields carry the prefix \<open>ar_\<close>.  The messages are formatted
  strings; a message is represented by a constructor for its template that carries the
  values formatted into it.
\<close>

datatype Message =
  Not_in_playing_phase
| No_hands_remaining
| Must_play_at_least_one_card
| Cannot_play_more_than_5_cards
| Invalid_card_index
| Duplicate_card_indices
| Scored_game_over int int int
| Scored_hands_left int int int int
| Scored_you_win int int
| Scored_blind_beaten int int
| No_discards_remaining
| Must_discard_at_least_one_card
| Cannot_discard_more_than_5_cards
| Discarded_drew int int int

record ActionResult =
  ar_success :: bool
  ar_message :: Message
  ar_score :: int
  ar_breakdown :: "ScoringBreakdown option"
  ar_blind_beaten :: bool
  ar_game_over :: bool
  ar_won :: bool

text \<open>\<^verbatim>\<open>ActionResult(success, message)\<close> with the other fields at their defaults.\<close>

definition ActionResult_new :: "bool \<Rightarrow> Message \<Rightarrow> ActionResult" where
  "ActionResult_new ok msg =
     \<lparr>ar_success = ok, ar_message = msg, ar_score = 0, ar_breakdown = None, ar_blind_beaten = False,
      ar_game_over = False, ar_won = False\<rparr>"

text \<open>
  The dataclass \<^verbatim>\<open>GameSimulator\<close>; its fields carry the prefix \<open>sim_\<close>.  \<open>sim_rng\<close> is the
  state of the simulator's generator object and \<open>sim_seed\<close> is the field \<^verbatim>\<open>_seed\<close>.
\<close>

record 'r GameSimulator =
  sim_deck :: "Card list"
  sim_hand :: "Card list"
  sim_played_this_round :: "Card list"
  sim_jokers :: "JokerInstance list"
  sim_max_jokers :: int
  sim_money :: int
  sim_ante :: int
  sim_max_ante :: int
  sim_blind_type :: BlindType
  sim_hands_remaining :: int
  sim_discards_remaining :: int
  sim_current_chips :: int
  sim_blind_chips :: int
  sim_hand_size :: int
  sim_phase :: GamePhase
  sim_hand_levels :: "HandType \<Rightarrow> int option"
  sim_rng :: 'r
  sim_seed :: "int option"

definition calculate_blind_chips :: "'r GameSimulator \<Rightarrow> int" where
  "calculate_blind_chips sim =
     (let base = BLIND_BASE_CHIPS (sim_blind_type sim);
          scale = ANTE_SCALING_get (sim_ante sim)
      in py_int (real_of_int base * scale))"

text \<open>
  \<^verbatim>\<open>reset(seed)\<close>.  \<open>fresh\<close> is the state of the generator that \<^verbatim>\<open>random.Random()\<close> makes
  without a seed.
\<close>

definition reset :: "('g, 'r) py_random \<Rightarrow> 'r \<Rightarrow> int option \<Rightarrow> 'r GameSimulator \<Rightarrow> 'r GameSimulator" where
  "reset rm fresh sd sim =
     (let r = (case sd of Some s \<Rightarrow> Random_seeded rm s | None \<Rightarrow> fresh);
          (d, r) = rng_shuffle rm r create_standard_deck;
          sim = sim\<lparr>sim_seed := sd, sim_rng := r, sim_deck := d, sim_hand := [], sim_played_this_round := [],
                    sim_jokers := [], sim_money := 4, sim_ante := 1, sim_blind_type := SMALL,
                    sim_hands_remaining := 4, sim_discards_remaining := 3, sim_current_chips := 0\<rparr>;
          sim = sim\<lparr>sim_blind_chips := calculate_blind_chips sim\<rparr>
      in sim\<lparr>sim_phase := BLIND_SELECT, sim_hand_levels := (\<lambda>ht. Some 1)\<rparr>)"

text \<open>\<^verbatim>\<open>__post_init__\<close>: a simulator made with an empty deck and an empty hand is reset.\<close>

definition post_init :: "('g, 'r) py_random \<Rightarrow> 'r \<Rightarrow> 'r GameSimulator \<Rightarrow> 'r GameSimulator" where
  "post_init rm fresh sim =
     (if sim_deck sim = [] \<and> sim_hand sim = [] then reset rm fresh None sim else sim)"

text \<open>
  \<^verbatim>\<open>clone\<close>: the constructor call (with its \<^verbatim>\<open>__post_init__\<close>), then the generator state
  of the parent is copied.  \<^verbatim>\<open>Card(c.rank, c.suit)\<close> is \<open>mk_card\<close>.
\<close>

definition clone :: "('g, 'r) py_random \<Rightarrow> 'r \<Rightarrow> 'r GameSimulator \<Rightarrow> 'r GameSimulator" where
  "clone rm fresh self =
     (let cloned = post_init rm fresh
            \<lparr>sim_deck = map (\<lambda>c. mk_card (rank c) (suit c)) (sim_deck self),
             sim_hand = map (\<lambda>c. mk_card (rank c) (suit c)) (sim_hand self),
             sim_played_this_round = map (\<lambda>c. mk_card (rank c) (suit c)) (sim_played_this_round self),
             sim_jokers = map (\<lambda>j. \<lparr>jdef = jdef j, state = state j\<rparr>) (sim_jokers self),
             sim_max_jokers = sim_max_jokers self,
             sim_money = sim_money self,
             sim_ante = sim_ante self,
             sim_max_ante = sim_max_ante self,
             sim_blind_type = sim_blind_type self,
             sim_hands_remaining = sim_hands_remaining self,
             sim_discards_remaining = sim_discards_remaining self,
             sim_current_chips = sim_current_chips self,
             sim_blind_chips = sim_blind_chips self,
             sim_hand_size = sim_hand_size self,
             sim_phase = sim_phase self,
             sim_hand_levels = sim_hand_levels self,
             sim_rng = fresh,
             sim_seed = sim_seed self\<rparr>
      in cloned\<lparr>sim_rng := sim_rng self\<rparr>)"

definition advance_blind :: "'r GameSimulator \<Rightarrow> 'r GameSimulator" where
  "advance_blind sim =
     (case sim_blind_type sim of
        SMALL \<Rightarrow> sim\<lparr>sim_blind_type := BIG, sim_phase := BLIND_SELECT\<rparr>
      | BIG \<Rightarrow> sim\<lparr>sim_blind_type := BOSS, sim_phase := BLIND_SELECT\<rparr>
      | BOSS \<Rightarrow>
          (let sim = sim\<lparr>sim_ante := sim_ante sim + 1, sim_blind_type := SMALL\<rparr>
           in if sim_ante sim > sim_max_ante sim then sim\<lparr>sim_phase := GAME_OVER\<rparr>
              else sim\<lparr>sim_phase := SHOP\<rparr>))"

text \<open>
  \<^verbatim>\<open>_draw_to_hand_size\<close>: \<^verbatim>\<open>deck.pop()\<close> takes the last card of the deck.  The function
  returns the number of cards drawn and the simulator.
\<close>

fun draw_loop :: "nat \<Rightarrow> Card list \<Rightarrow> Card list \<Rightarrow> int \<Rightarrow> Card list \<times> Card list \<times> int" where
  "draw_loop 0 d h cards_drawn = (d, h, cards_drawn)"
| "draw_loop (Suc n) d h cards_drawn =
     (if d \<noteq> [] then draw_loop n (butlast d) (h @ [last d]) (cards_drawn + 1)
      else draw_loop n d h cards_drawn)"

definition draw_to_hand_size :: "'r GameSimulator \<Rightarrow> int \<times> 'r GameSimulator" where
  "draw_to_hand_size sim =
     (let cards_to_draw = sim_hand_size sim - int (length (sim_hand sim));
          (d, h, cards_drawn) = draw_loop (nat cards_to_draw) (sim_deck sim) (sim_hand sim) 0
      in (cards_drawn, sim\<lparr>sim_deck := d, sim_hand := h\<rparr>))"

definition reshuffle_played :: "('g, 'r) py_random \<Rightarrow> 'r GameSimulator \<Rightarrow> 'r GameSimulator" where
  "reshuffle_played rm sim =
     (let (d, r) = rng_shuffle rm (sim_rng sim) (sim_deck sim @ sim_played_this_round sim)
      in sim\<lparr>sim_deck := d, sim_played_this_round := [], sim_rng := r\<rparr>)"

definition handle_blind_beaten ::
  "('g, 'r) py_random \<Rightarrow> 'r GameSimulator \<Rightarrow> ScoringBreakdown \<Rightarrow> ActionResult \<times> 'r GameSimulator" where
  "handle_blind_beaten rm sim bd =
     (let reward = BLIND_REWARDS (sim_blind_type sim);
          interest = min (sim_money sim div 5) 5;
          total_reward = reward + interest;
          sim = sim\<lparr>sim_money := sim_money sim + total_reward\<rparr>;
          sim = reshuffle_played rm sim;
          (d, r) = rng_shuffle rm (sim_rng sim) (sim_deck sim @ sim_hand sim);
          sim = sim\<lparr>sim_deck := d, sim_hand := [], sim_rng := r\<rparr>
      in if sim_blind_type sim = BOSS \<and> sim_ante sim \<ge> sim_max_ante sim
         then (\<lparr>ar_success = True, ar_message = Scored_you_win (final_score bd) total_reward,
                 ar_score = final_score bd, ar_breakdown = Some bd, ar_blind_beaten = True,
                 ar_game_over = True, ar_won = True\<rparr>,
               sim\<lparr>sim_phase := GAME_OVER\<rparr>)
         else (\<lparr>ar_success = True, ar_message = Scored_blind_beaten (final_score bd) total_reward,
                 ar_score = final_score bd, ar_breakdown = Some bd, ar_blind_beaten = True,
                 ar_game_over = False, ar_won = False\<rparr>,
               advance_blind sim))"
text \<open>\<^verbatim>\<open>state[k] = v\<close> on a dictionary: an existing key keeps its place.\<close>

definition state_set :: "(string \<times> int) list \<Rightarrow> string \<Rightarrow> int \<Rightarrow> (string \<times> int) list" where
  "state_set st k v =
     (if k \<in> fst ` set st then map (\<lambda>(k', v'). if k' = k then (k', v) else (k', v')) st
      else st @ [(k, v)])"

definition update_joker_after_play :: "Card list \<Rightarrow> JokerInstance \<Rightarrow> JokerInstance" where
  "update_joker_after_play played_cards joker =
     (if jd_id (jdef joker) = ''ice_cream''
      then (let current = state_get (state joker) ''chips'' 100
            in joker\<lparr>state := state_set (state joker) ''chips'' (max 0 (current - 5))\<rparr>)
      else if jd_id (jdef joker) = ''green_joker''
      then (let current = state_get (state joker) ''mult'' 0
            in joker\<lparr>state := state_set (state joker) ''mult'' (current + 1)\<rparr>)
      else if jd_id (jdef joker) = ''ride_the_bus''
      then (let has_face = (\<exists>c \<in> set played_cards. rank c \<in> {JACK, QUEEN, KING})
            in if has_face then joker\<lparr>state := state_set (state joker) ''mult'' 0\<rparr>
               else (let current = state_get (state joker) ''mult'' 0
                     in joker\<lparr>state := state_set (state joker) ''mult'' (current + 1)\<rparr>))
      else joker)"

definition update_joker_states_after_play :: "Card list \<Rightarrow> 'r GameSimulator \<Rightarrow> 'r GameSimulator" where
  "update_joker_states_after_play played_cards sim =
     sim\<lparr>sim_jokers := map (update_joker_after_play played_cards) (sim_jokers sim)\<rparr>"

definition update_joker_states_after_discard :: "Card list \<Rightarrow> 'r GameSimulator \<Rightarrow> 'r GameSimulator" where
  "update_joker_states_after_discard discarded_cards sim =
     sim\<lparr>sim_jokers :=
           map (\<lambda>joker.
                  if jd_id (jdef joker) = ''green_joker''
                  then (let current = state_get (state joker) ''mult'' 0
                        in joker\<lparr>state := state_set (state joker) ''mult'' (max 0 (current - 1))\<rparr>)
                  else joker)
               (sim_jokers sim)\<rparr>"

text \<open>\<^verbatim>\<open>hand.pop(i)\<close> for every index, the largest first.\<close>

definition pop_indices :: "int list \<Rightarrow> 'a list \<Rightarrow> 'a list" where
  "pop_indices card_indices h =
     foldl (\<lambda>h i. take (nat i) h @ drop (Suc (nat i)) h) h (sorted_desc card_indices)"

text \<open>
  \<^verbatim>\<open>play_hand\<close>.  The result is the \<^verbatim>\<open>ActionResult\<close>, the simulator and the module-level
  generator as the call leaves them; a raise of \<^verbatim>\<open>calculate_score\<close> is passed on.
\<close>

definition play_hand ::
  "('g, 'r) py_random \<Rightarrow> (string \<Rightarrow> 'g calculator option) \<Rightarrow> 'r GameSimulator \<Rightarrow> int list \<Rightarrow> 'g
     \<Rightarrow> py_error + (ActionResult \<times> 'r GameSimulator \<times> 'g)" where
  "play_hand rm calcs sim card_indices g =
     (if sim_phase sim \<noteq> PLAYING then Inr (ActionResult_new False Not_in_playing_phase, sim, g)
      else if sim_hands_remaining sim \<le> 0 then Inr (ActionResult_new False No_hands_remaining, sim, g)
      else if card_indices = []
        then Inr (ActionResult_new False Must_play_at_least_one_card, sim, g)
      else if length card_indices > 5
        then Inr (ActionResult_new False Cannot_play_more_than_5_cards, sim, g)
      else if (\<exists>i \<in> set card_indices. i < 0 \<or> i \<ge> int (length (sim_hand sim)))
        then Inr (ActionResult_new False Invalid_card_index, sim, g)
      else if \<not> distinct card_indices
        then Inr (ActionResult_new False Duplicate_card_indices, sim, g)
      else
        let cards_to_play = map (\<lambda>i. sim_hand sim ! nat i) (sorted_desc card_indices);
            sim = sim\<lparr>sim_hand := pop_indices card_indices (sim_hand sim)\<rparr>;
            game_state = GameState_default\<lparr>gs_hand_levels := sim_hand_levels sim,
                           gs_discards_remaining := sim_discards_remaining sim\<rparr>
        in case calculate_score rm calcs cards_to_play (sim_jokers sim) game_state (Some (sim_hand sim))
                  None g of
             Inl e \<Rightarrow> Inl e
           | Inr (bd, js, g) \<Rightarrow>
             (let sim = sim\<lparr>sim_jokers := js\<rparr>;
                  sim = update_joker_states_after_play cards_to_play sim;
                  sim = sim\<lparr>sim_current_chips := sim_current_chips sim + final_score bd,
                            sim_hands_remaining := sim_hands_remaining sim - 1\<rparr>;
                  sim = sim\<lparr>sim_played_this_round := sim_played_this_round sim @ cards_to_play\<rparr>;
                  beaten = (sim_current_chips sim \<ge> sim_blind_chips sim)
              in if beaten
                 then (let (res, sim) = handle_blind_beaten rm sim bd in Inr (res, sim, g))
                 else if sim_hands_remaining sim \<le> 0
                 then Inr (\<lparr>ar_success = True,
                             ar_message = Scored_game_over (final_score bd) (sim_current_chips sim)
                                         (sim_blind_chips sim),
                             ar_score = final_score bd, ar_breakdown = Some bd, ar_blind_beaten = False,
                             ar_game_over = True, ar_won = False\<rparr>,
                           sim\<lparr>sim_phase := GAME_OVER\<rparr>, g)
                 else (let (drawn, sim) = draw_to_hand_size sim
                       in Inr (\<lparr>ar_success = True,
                                 ar_message = Scored_hands_left (final_score bd) (sim_current_chips sim)
                                             (sim_blind_chips sim) (sim_hands_remaining sim),
                                 ar_score = final_score bd, ar_breakdown = Some bd,
                                 ar_blind_beaten = False, ar_game_over = False, ar_won = False\<rparr>,
                               sim, g))))"

definition discard :: "'r GameSimulator \<Rightarrow> int list \<Rightarrow> ActionResult \<times> 'r GameSimulator" where
  "discard sim card_indices =
     (if sim_phase sim \<noteq> PLAYING then (ActionResult_new False Not_in_playing_phase, sim)
      else if sim_discards_remaining sim \<le> 0 then (ActionResult_new False No_discards_remaining, sim)
      else if card_indices = []
        then (ActionResult_new False Must_discard_at_least_one_card, sim)
      else if length card_indices > 5
        then (ActionResult_new False Cannot_discard_more_than_5_cards, sim)
      else if (\<exists>i \<in> set card_indices. i < 0 \<or> i \<ge> int (length (sim_hand sim)))
        then (ActionResult_new False Invalid_card_index, sim)
      else if \<not> distinct card_indices
        then (ActionResult_new False Duplicate_card_indices, sim)
      else
        let cards_to_discard = map (\<lambda>i. sim_hand sim ! nat i) (sorted_desc card_indices);
            sim = sim\<lparr>sim_hand := pop_indices card_indices (sim_hand sim)\<rparr>;
            sim = update_joker_states_after_discard cards_to_discard sim;
            sim = sim\<lparr>sim_discards_remaining := sim_discards_remaining sim - 1\<rparr>;
            sim = sim\<lparr>sim_played_this_round := sim_played_this_round sim @ cards_to_discard\<rparr>;
            (drawn, sim) = draw_to_hand_size sim
        in (ActionResult_new True
              (Discarded_drew (int (length cards_to_discard)) drawn (sim_discards_remaining sim)),
            sim))"

definition is_game_over :: "'r GameSimulator \<Rightarrow> bool" where
  "is_game_over sim = (sim_phase sim = GAME_OVER)"

definition is_won :: "'r GameSimulator \<Rightarrow> bool" where
  "is_won sim = (sim_phase sim = GAME_OVER \<and> sim_ante sim > sim_max_ante sim)"

text \<open>
  A simulator in the middle of the Boss blind of the last ante (ante 8 of 8): 8990 of
  the 9000 chips are scored, the hand holds the Ace of Spades, no joker is held.
\<close>

definition final_boss_sim :: "real list GameSimulator" where
  "final_boss_sim =
     \<lparr>sim_deck = [mk_card KING HEARTS], sim_hand = [mk_card ACE SPADES],
      sim_played_this_round = [], sim_jokers = [], sim_max_jokers = 5, sim_money = 4,
      sim_ante = 8, sim_max_ante = 8, sim_blind_type = BOSS, sim_hands_remaining = 4,
      sim_discards_remaining = 3, sim_current_chips = 8990, sim_blind_chips = 9000,
      sim_hand_size = 8, sim_phase = PLAYING, sim_hand_levels = (\<lambda>ht. Some 1),
      sim_rng = [], sim_seed = None\<rparr>"

text \<open>
  The same simulator holding a Glass Ace of Spades instead.
\<close>

definition glass_sim :: "real list GameSimulator" where
  "glass_sim = final_boss_sim\<lparr>sim_hand := [(mk_card ACE SPADES)\<lparr>enhancement := Enh_GLASS\<rparr>]\<rparr>"

section \<open>Heuristics (heuristics.py)\<close>

datatype ActionType = PLAY | DISCARD | BUY_JOKER | SELL_JOKER | SKIP | END_SHOP





text \<open>\<^verbatim>\<open>itertools.combinations(xs, n)\<close>, in its lexicographic order of positions.\<close>

fun combinations :: "'a list \<Rightarrow> nat \<Rightarrow> 'a list list" where
  "combinations xs 0 = [[]]"
| "combinations [] (Suc n) = []"
| "combinations (x # xs) (Suc n) = map ((#) x) (combinations xs n) @ combinations xs (Suc n)"

text \<open>
  The index tuples of the two nested loops
  \<^verbatim>\<open>for n in range(1, min(6, len(hand) + 1)): for indices in combinations(range(len(hand)), n)\<close>.
\<close>

definition index_combinations :: "nat \<Rightarrow> nat list list" where
  "index_combinations len =
     concat (map (\<lambda>n. combinations [0 ..< len] n) [1 ..< min 6 (len + 1)])"

text \<open>\<^verbatim>\<open>[c for i, c in enumerate(hand) if i not in indices]\<close>.\<close>

definition cards_not_at :: "'a list \<Rightarrow> nat list \<Rightarrow> 'a list" where
  "cards_not_at h indices = map snd (filter (\<lambda>(i, c). i \<notin> set indices) (enumerate 0 h))"





















section \<open>Decision engine (decision\_engine.py)\<close>

record DecisionConfig =
  lethal_probability_threshold :: real
  lethal_variance_penalty :: real
  early_game_variance_weight :: real
  mid_game_variance_weight :: real
  late_game_variance_weight :: real
  lethal_range_variance_weight :: real
  base_safety_margin :: real
  low_discard_margin_multiplier :: real
  boss_blind_margin_multiplier :: real
  near_lethal_margin_multiplier :: real
  rare_rank_loss_weight :: real
  suit_imbalance_weight :: real
  straight_potential_weight :: real
  joker_trigger_value_weight :: real
  future_frequency_weight :: real
  prefer_play_over_discard :: real
  prefer_fewer_cards :: real
  prefer_deterministic :: real

definition DecisionConfig_default :: DecisionConfig where
  "DecisionConfig_default =
     \<lparr>lethal_probability_threshold = 0.95, lethal_variance_penalty = 1000,
      early_game_variance_weight = 0.1, mid_game_variance_weight = 0.3,
      late_game_variance_weight = 0.5, lethal_range_variance_weight = 1,
      base_safety_margin = 50, low_discard_margin_multiplier = 1.5,
      boss_blind_margin_multiplier = 2, near_lethal_margin_multiplier = 3,
      rare_rank_loss_weight = 20, suit_imbalance_weight = 10, straight_potential_weight = 15,
      joker_trigger_value_weight = 1, future_frequency_weight = 0.5,
      prefer_play_over_discard = 10, prefer_fewer_cards = 5, prefer_deterministic = 20\<rparr>"

text \<open>
  The entries of the \<^verbatim>\<open>reasoning\<close> list of an evaluated action; a formatted entry
  carries the values formatted into it.
\<close>

datatype EReason =
  ER_hand_type_name HandType
| ER_LETHAL
| ER_LETHAL_playing_safe_winning_hand
| ER_discard nat
| ER_P string real
| ER_EV real
| ER_No_valid_actions_playing_first_card

text \<open>\<^verbatim>\<open>EvaluatedAction\<close>; its fields carry the prefix \<open>ea_\<close>.\<close>

record EvaluatedAction =
  ea_action_type :: string
  ea_card_indices :: "nat list"
  ea_cards :: "Card list"
  ea_expected_score :: int
  ea_variance :: real
  ea_hand_type :: "HandType option"
  ea_scoring_breakdown :: "ScoringBreakdown option"
  ea_is_lethal :: bool
  ea_is_deterministic :: bool
  ea_final_score :: real
  ea_reasoning :: "EReason list"

definition add_reason :: "EvaluatedAction \<Rightarrow> EReason \<Rightarrow> EvaluatedAction" where
  "add_reason action reason = action\<lparr>ea_reasoning := ea_reasoning action @ [reason]\<rparr>"

text \<open>
  The loop of \<^verbatim>\<open>_evaluate_all_plays\<close> over the index tuples; as in \<^verbatim>\<open>evaluate_plays\<close>
  the jokers and the module-level generator are carried from pass to pass.
\<close>

fun all_plays_loop ::
  "('g, 'r) py_random \<Rightarrow> (string \<Rightarrow> 'g calculator option) \<Rightarrow> Card list \<Rightarrow> GameState \<Rightarrow> int
     \<Rightarrow> nat list list \<Rightarrow> JokerInstance list \<Rightarrow> 'g \<Rightarrow> EvaluatedAction list
     \<Rightarrow> py_error + (EvaluatedAction list \<times> JokerInstance list \<times> 'g)" where
  "all_plays_loop rm calcs h game_state chips_needed [] js g actions = Inr (actions, js, g)"
| "all_plays_loop rm calcs h game_state chips_needed (indices # rest) js g actions =
     (let cards_to_play = map (\<lambda>i. h ! i) indices;
          remaining = cards_not_at h indices
      in case calculate_score rm calcs cards_to_play js game_state (Some remaining) None g of
           Inl e \<Rightarrow> Inl e
         | Inr (bd, js, g) \<Rightarrow>
             (let is_lethal = (final_score bd \<ge> chips_needed);
                  action = \<lparr>ea_action_type = ''play'', ea_card_indices = indices,
                            ea_cards = cards_to_play, ea_expected_score = final_score bd,
                            ea_variance = 0, ea_hand_type = Some (sb_hand_type bd),
                            ea_scoring_breakdown = Some bd, ea_is_lethal = is_lethal,
                            ea_is_deterministic = True, ea_final_score = 0,
                            ea_reasoning = []\<rparr>;
                  action = add_reason action (ER_hand_type_name (sb_hand_type bd));
                  action = (if is_lethal then add_reason action ER_LETHAL else action)
              in all_plays_loop rm calcs h game_state chips_needed rest js g
                   (actions @ [action])))"

definition evaluate_all_plays ::
  "('g, 'r) py_random \<Rightarrow> (string \<Rightarrow> 'g calculator option) \<Rightarrow> Card list \<Rightarrow> JokerInstance list
     \<Rightarrow> GameState \<Rightarrow> int \<Rightarrow> int \<Rightarrow> 'g
     \<Rightarrow> py_error + (EvaluatedAction list \<times> JokerInstance list \<times> 'g)" where
  "evaluate_all_plays rm calcs h js game_state chips_needed hands_left g =
     all_plays_loop rm calcs h game_state chips_needed (index_combinations (length h)) js g []"

text \<open>
  \<^verbatim>\<open>_find_safest_lethal\<close>: \<^verbatim>\<open>max\<close> with the key \<^verbatim>\<open>safety_score\<close>, a tuple compared
  lexicographically; \<^verbatim>\<open>max\<close> of an empty list raises \<^verbatim>\<open>ValueError\<close>.
\<close>

definition safety_score :: "EvaluatedAction \<Rightarrow> int \<times> int \<times> int" where
  "safety_score action =
     (ea_expected_score action,
      - int (length (ea_cards action)),
      (case ea_hand_type action of Some ht \<Rightarrow> hand_type_value ht | None \<Rightarrow> 0))"

definition find_safest_lethal :: "EvaluatedAction list \<Rightarrow> py_error + EvaluatedAction" where
  "find_safest_lethal lethal_plays =
     (case lethal_plays of
        [] \<Rightarrow> Inl ValueError
      | a # rest \<Rightarrow> Inr (py_max_from safety_score a rest))"

definition get_variance_weight :: "DecisionConfig \<Rightarrow> int \<Rightarrow> int \<Rightarrow> int \<Rightarrow> real" where
  "get_variance_weight config chips_needed hands_left blind_total =
     (if real_of_int chips_needed < real_of_int blind_total * 0.3
        then lethal_range_variance_weight config
      else if hands_left \<le> 2 then late_game_variance_weight config
      else if hands_left \<le> 3 then mid_game_variance_weight config
      else early_game_variance_weight config)"

text \<open>The body of the loop of \<^verbatim>\<open>decide\<close> that sets the final score of an action.\<close>

definition weigh_action :: "DecisionConfig \<Rightarrow> real \<Rightarrow> EvaluatedAction \<Rightarrow> EvaluatedAction" where
  "weigh_action config variance_weight action =
     (let s = real_of_int (ea_expected_score action);
          s = s - variance_weight * ea_variance action;
          s = (if ea_action_type action = ''play'' then s + prefer_play_over_discard config else s);
          s = (if ea_is_deterministic action then s + prefer_deterministic config else s);
          s = s - real (length (ea_cards action)) * prefer_fewer_cards config
      in action\<lparr>ea_final_score := s\<rparr>)"

text \<open>
  The type of \<^verbatim>\<open>_evaluate_all_discards\<close>, which \<^verbatim>\<open>decide\<close> calls on (hand, jokers,
  game state, deck state, chips needed, hands remaining, discards remaining, is boss
  blind).  It scores with \<^verbatim>\<open>calculate_score\<close>, so it gets and returns the jokers and the
  module-level generator, and it may raise.
\<close>

type_synonym 'g discard_evaluator =
  "Card list \<Rightarrow> JokerInstance list \<Rightarrow> GameState \<Rightarrow> DeckState \<Rightarrow> int \<Rightarrow> int \<Rightarrow> int \<Rightarrow> bool \<Rightarrow> 'g
     \<Rightarrow> py_error + (EvaluatedAction list \<times> JokerInstance list \<times> 'g)"

text \<open>
  \<^verbatim>\<open>DeepDecisionEngine.decide\<close>, with the engine's configuration as an argument.  The
  discard evaluator \<^verbatim>\<open>_evaluate_all_discards\<close>, which runs only when no play is lethal,
  is an argument too: what is proved of \<^verbatim>\<open>decide\<close> below holds whatever the evaluator
  does.  The calls of the logger are left out.  The result is the chosen action together
  with the jokers and the module-level generator as the call leaves them.
\<close>

definition decide ::
  "('g, 'r) py_random \<Rightarrow> (string \<Rightarrow> 'g calculator option) \<Rightarrow> 'g discard_evaluator
     \<Rightarrow> DecisionConfig \<Rightarrow> Card list \<Rightarrow> JokerInstance list \<Rightarrow> GameState \<Rightarrow> int \<Rightarrow> int \<Rightarrow> int
     \<Rightarrow> int \<Rightarrow> DeckState option \<Rightarrow> bool \<Rightarrow> 'g
     \<Rightarrow> py_error + (EvaluatedAction \<times> JokerInstance list \<times> 'g)" where
  "decide rm calcs evaluate_all_discards config h js game_state blind current hands_left
       discards_left deck_state is_boss_blind g =
     (let chips_needed = blind - current;
          deck_state = (case deck_state of None \<Rightarrow> from_known_cards h [] [] | Some ds \<Rightarrow> ds)
      in case evaluate_all_plays rm calcs h js game_state chips_needed hands_left g of
           Inl e \<Rightarrow> Inl e
         | Inr (play_actions, js, g) \<Rightarrow>
             (let lethal_plays = filter ea_is_lethal play_actions
              in if lethal_plays \<noteq> []
                 then
                   (case find_safest_lethal lethal_plays of
                      Inl e \<Rightarrow> Inl e
                    | Inr best_lethal \<Rightarrow>
                        Inr (add_reason best_lethal ER_LETHAL_playing_safe_winning_hand, js, g))
                 else
                   (case (if discards_left > 0
                          then evaluate_all_discards h js game_state deck_state chips_needed
                                 hands_left discards_left is_boss_blind g
                          else Inr ([], js, g)) of
                      Inl e \<Rightarrow> Inl e
                    | Inr (discard_actions, js, g) \<Rightarrow>
                        (let all_actions = play_actions @ discard_actions;
                             variance_weight = get_variance_weight config chips_needed hands_left blind;
                             all_actions = map (weigh_action config variance_weight) all_actions;
                             all_actions = sort_key (\<lambda>a. - ea_final_score a) all_actions
                         in case all_actions of
                              [] \<Rightarrow>
                                Inr (\<lparr>ea_action_type = ''play'', ea_card_indices = [0],
                                       ea_cards = (if h \<noteq> [] then [h ! 0] else []),
                                       ea_expected_score = 0, ea_variance = 0,
                                       ea_hand_type = None, ea_scoring_breakdown = None,
                                       ea_is_lethal = False, ea_is_deterministic = True,
                                       ea_final_score = 0,
                                       ea_reasoning = [ER_No_valid_actions_playing_first_card]\<rparr>,
                                     js, g)
                            | best # _ \<Rightarrow> Inr (best, js, g)))))"

section \<open>Facts about hand evaluation\<close>

lemma add_card_chips_all_stone:
  "list_all (\<lambda>c. enhancement c = Enh_STONE) cs \<Longrightarrow>
   add_card_chips acc cs = acc + 50 * int (length cs)"
  by (induction cs arbitrary: acc) (simp_all add: algebra_simps)

lemma filter_all_stone:
  "list_all (\<lambda>c. enhancement c = Enh_STONE) cs \<Longrightarrow>
   filter (\<lambda>c. enhancement c = Enh_STONE) cs = cs \<and>
   filter (\<lambda>c. enhancement c \<noteq> Enh_STONE) cs = []"
  by (induction cs) simp_all

lemma identify_hand_no_normal_cards:
  "identify_hand [] [] False False [] = (HIGH_CARD, [])"
  by (simp add: identify_hand_def)

text \<open>
  C10.  For every non-empty list of at most five cards that are all Stone-enhanced,
  \<^verbatim>\<open>evaluate_hand\<close> raises no error and returns HighCard; the scoring cards are exactly
  the stone cards (the HighCard rule selects no card, there being no normal card); the
  base chips are \<open>hand_level * 5\<close> plus 50 for each stone card, and the base mult is
  \<open>1 + (hand_level - 1)\<close>.
\<close>

theorem evaluate_hand_all_stone:
  assumes "cards \<noteq> []" and "length cards \<le> 5"
    and "list_all (\<lambda>c. enhancement c = Enh_STONE) cards"
  shows "evaluate_hand cards hand_level =
           Inr \<lparr>hand_type = HIGH_CARD, scoring_cards = cards,
                base_chips = hand_level * 5 + 50 * int (length cards),
                base_mult = 1 + (hand_level - 1)\<rparr>"
proof -
  have f: "filter (\<lambda>c. enhancement c = Enh_STONE) cards = cards"
          "filter (\<lambda>c. enhancement c \<noteq> Enh_STONE) cards = []"
    using filter_all_stone [OF assms(3)] by simp_all
  have chips: "add_card_chips (5 + (hand_level - 1) * 5) cards
                 = hand_level * 5 + 50 * int (length cards)"
    using add_card_chips_all_stone [OF assms(3)] by (simp add: algebra_simps)
  show ?thesis
    using assms(1,2) f chips
    by (simp add: evaluate_hand_def Let_def sorted_desc_def counter_values_def
        check_flush_def is_straight_def identify_hand_no_normal_cards)
qed

theorem evaluate_hand_all_stone_witness:
  "evaluate_hand
     [\<lparr>rank = ACE, suit = SPADES, enhancement = Enh_STONE, edition = Ed_BASE, seal = Seal_NONE\<rparr>,
      \<lparr>rank = TWO, suit = HEARTS, enhancement = Enh_STONE, edition = Ed_FOIL, seal = Seal_RED\<rparr>] 3
   = Inr \<lparr>hand_type = HIGH_CARD,
          scoring_cards =
            [\<lparr>rank = ACE, suit = SPADES, enhancement = Enh_STONE, edition = Ed_BASE, seal = Seal_NONE\<rparr>,
             \<lparr>rank = TWO, suit = HEARTS, enhancement = Enh_STONE, edition = Ed_FOIL, seal = Seal_RED\<rparr>],
          base_chips = 115, base_mult = 3\<rparr>"
  using evaluate_hand_all_stone
    [of "[\<lparr>rank = ACE, suit = SPADES, enhancement = Enh_STONE, edition = Ed_BASE, seal = Seal_NONE\<rparr>,
          \<lparr>rank = TWO, suit = HEARTS, enhancement = Enh_STONE, edition = Ed_FOIL, seal = Seal_RED\<rparr>]" 3]
  by simp

section \<open>Facts about the deck tracker\<close>

lemma pop_first_match_None:
  "pop_first_match crd cs = None \<longleftrightarrow> (\<forall>c \<in> set cs. deck_key c \<noteq> deck_key crd)"
  by (induction cs) (auto simp: deck_key_def)

lemma pop_first_match_Some:
  "pop_first_match crd cs = Some r \<Longrightarrow>
   \<exists>pre c post. cs = pre @ c # post \<and> r = pre @ post \<and> deck_key c = deck_key crd \<and>
     (\<forall>x \<in> set pre. deck_key x \<noteq> deck_key crd)"
proof (induction cs arbitrary: r)
  case Nil
  then show ?case by simp
next
  case (Cons a cs)
  show ?case
  proof (cases "rank a = rank crd \<and> suit a = suit crd")
    case True
    with Cons.prems have "r = cs" by simp
    with True have "a # cs = [] @ a # cs \<and> r = [] @ cs \<and> deck_key a = deck_key crd \<and>
      (\<forall>x \<in> set []. deck_key x \<noteq> deck_key crd)"
      by (simp add: deck_key_def)
    then show ?thesis by blast
  next
    case False
    with Cons.prems obtain r' where r': "pop_first_match crd cs = Some r'" "r = a # r'"
      by auto
    from Cons.IH [OF r'(1)] obtain pre c post where
      h: "cs = pre @ c # post" "r' = pre @ post" "deck_key c = deck_key crd"
         "\<forall>x \<in> set pre. deck_key x \<noteq> deck_key crd"
      by blast
    from False have "deck_key a \<noteq> deck_key crd" by (auto simp: deck_key_def)
    with h r'(2) have "a # cs = (a # pre) @ c # post \<and> r = (a # pre) @ post \<and>
       deck_key c = deck_key crd \<and> (\<forall>x \<in> set (a # pre). deck_key x \<noteq> deck_key crd)"
      by simp
    then show ?thesis by blast
  qed
qed

lemma remove_card_composition:
  "deck_composition (snd (remove_card ds crd played)) = deck_composition ds"
proof (cases "pop_first_match crd (remaining_cards ds)")
  case None
  then show ?thesis by (simp add: remove_card_def)
next
  case (Some r)
  from pop_first_match_Some [OF Some] obtain pre c post where
    h: "remaining_cards ds = pre @ c # post" "r = pre @ post" "deck_key c = deck_key crd"
    by blast
  then show ?thesis using Some
    by (simp add: remove_card_def deck_composition_def)
qed

lemma remove_cards_loop_composition:
  "deck_composition (snd (remove_cards_loop ds cs played n)) = deck_composition ds"
proof (induction cs arbitrary: ds n)
  case Nil
  then show ?case by simp
next
  case (Cons a cs)
  obtain b ds' where r: "remove_card ds a played = (b, ds')" by (cases "remove_card ds a played")
  then have "deck_composition ds' = deck_composition ds"
    using remove_card_composition [of ds a played] by simp
  with r Cons.IH show ?case by (cases b) simp_all
qed

lemma reset_deck_composition:
  "deck_composition (reset_deck ds) = image_mset deck_key (mset create_standard_deck)"
  by (simp add: reset_deck_def deck_composition_def)

lemma create_standard_deck_nonempty: "create_standard_deck \<noteq> []"
  by (simp add: create_standard_deck_def all_suits_def all_ranks_def)

lemma fresh_deck_composition:
  "deck_composition (DeckState_new [] [] []) = image_mset deck_key (mset create_standard_deck)"
  by (simp add: DeckState_new_def update_counts_def deck_composition_def)

lemma apply_deck_op_composition:
  "deck_composition ds = image_mset deck_key (mset create_standard_deck) \<Longrightarrow>
   deck_composition (apply_deck_op ds op) = image_mset deck_key (mset create_standard_deck)"
  by (cases op) (simp_all add: remove_card_composition remove_cards_def
      remove_cards_loop_composition reset_deck_composition)

lemma run_deck_ops_composition:
  "deck_composition ds = image_mset deck_key (mset create_standard_deck) \<Longrightarrow>
   deck_composition (run_deck_ops ds ops) = image_mset deck_key (mset create_standard_deck)"
  unfolding run_deck_ops_def
  by (induction ops arbitrary: ds) (simp_all add: apply_deck_op_composition)

lemma all_ranks_complete: "r \<in> set all_ranks"
  by (cases r) (simp_all add: all_ranks_def)

lemma all_suits_complete: "s \<in> set all_suits"
  by (cases s) (simp_all add: all_suits_def)

lemma mk_card_in_deck: "mk_card r s \<in> set create_standard_deck"
  unfolding create_standard_deck_def
  using all_ranks_complete [of r] all_suits_complete [of s] by auto

lemma remaining_DeckState_new:
  "remaining_cards (DeckState_new rem pl di) =
     (if rem = [] \<and> pl = [] \<and> di = [] then create_standard_deck else rem)"
  by (simp add: DeckState_new_def update_counts_def)

lemma piles_DeckState_new:
  "cards_played (DeckState_new rem pl di) = pl"
  "cards_discarded (DeckState_new rem pl di) = di"
  by (simp_all add: DeckState_new_def update_counts_def)


text \<open>
  C6 (as amended).  Starting from a freshly constructed tracker, every sequence of
  \<^verbatim>\<open>remove_card\<close>, \<^verbatim>\<open>remove_cards\<close> and \<^verbatim>\<open>reset\<close> keeps the composition by rank and suit of
  remaining + played + discarded equal to that of the standard 52-card deck.
  \<^verbatim>\<open>remove_card\<close> returns False and leaves the tracker as it is when no remaining card has
  the rank and suit of the argument; otherwise it pops the first such card, appends the
  argument to the designated pile, leaves the other pile alone, marks the counters dirty
  and returns True.
\<close>

theorem deck_conservation:
  "deck_composition (run_deck_ops (DeckState_new [] [] []) ops)
     = image_mset deck_key (mset create_standard_deck)
   \<and> ((\<forall>c \<in> set (remaining_cards ds). deck_key c \<noteq> deck_key crd) \<longrightarrow>
        remove_card ds crd played = (False, ds))
   \<and> ((\<exists>c \<in> set (remaining_cards ds). deck_key c = deck_key crd) \<longrightarrow>
        (\<exists>pre c post.
           remaining_cards ds = pre @ c # post \<and> deck_key c = deck_key crd \<and>
           (\<forall>x \<in> set pre. deck_key x \<noteq> deck_key crd) \<and>
           remove_card ds crd played =
             (True,
              if played
              then ds\<lparr>remaining_cards := pre @ post, cards_played := cards_played ds @ [crd],
                      dirty := True\<rparr>
              else ds\<lparr>remaining_cards := pre @ post,
                      cards_discarded := cards_discarded ds @ [crd], dirty := True\<rparr>)))"
proof (intro conjI impI)
  show "deck_composition (run_deck_ops (DeckState_new [] [] []) ops)
     = image_mset deck_key (mset create_standard_deck)"
    by (rule run_deck_ops_composition [OF fresh_deck_composition])
next
  assume "\<forall>c \<in> set (remaining_cards ds). deck_key c \<noteq> deck_key crd"
  then have "pop_first_match crd (remaining_cards ds) = None"
    by (simp add: pop_first_match_None)
  then show "remove_card ds crd played = (False, ds)" by (simp add: remove_card_def)
next
  assume "\<exists>c \<in> set (remaining_cards ds). deck_key c = deck_key crd"
  then have "pop_first_match crd (remaining_cards ds) \<noteq> None"
    by (simp add: pop_first_match_None)
  then obtain r where r: "pop_first_match crd (remaining_cards ds) = Some r" by blast
  from pop_first_match_Some [OF r] obtain pre c post where
    h: "remaining_cards ds = pre @ c # post" "r = pre @ post" "deck_key c = deck_key crd"
       "\<forall>x \<in> set pre. deck_key x \<noteq> deck_key crd"
    by blast
  have "remove_card ds crd played =
             (True,
              if played
              then ds\<lparr>remaining_cards := pre @ post, cards_played := cards_played ds @ [crd],
                      dirty := True\<rparr>
              else ds\<lparr>remaining_cards := pre @ post,
                      cards_discarded := cards_discarded ds @ [crd], dirty := True\<rparr>)"
    using r h(2) by (simp add: remove_card_def)
  with h show "\<exists>pre c post.
           remaining_cards ds = pre @ c # post \<and> deck_key c = deck_key crd \<and>
           (\<forall>x \<in> set pre. deck_key x \<noteq> deck_key crd) \<and>
           remove_card ds crd played =
             (True,
              if played
              then ds\<lparr>remaining_cards := pre @ post, cards_played := cards_played ds @ [crd],
                      dirty := True\<rparr>
              else ds\<lparr>remaining_cards := pre @ post,
                      cards_discarded := cards_discarded ds @ [crd], dirty := True\<rparr>)"
    by blast
qed

theorem deck_conservation_witness:
  "deck_composition
     (run_deck_ops (DeckState_new [] [] [])
        [Remove_card (mk_card ACE SPADES) True,
         Remove_cards [mk_card KING HEARTS, mk_card KING HEARTS] False,
         Reset,
         Remove_card (mk_card TWO CLUBS) False])
     = image_mset deck_key (mset create_standard_deck)
   \<and> remove_card (DeckState_new [mk_card TWO HEARTS] [] []) (mk_card ACE SPADES) True
       = (False, DeckState_new [mk_card TWO HEARTS] [] [])
   \<and> fst (remove_card (DeckState_new [mk_card TWO HEARTS, mk_card ACE SPADES] [] [])
            (mk_card ACE SPADES) False) = True"
proof -
  have a: "\<forall>c \<in> set (remaining_cards (DeckState_new [mk_card TWO HEARTS] [] [])).
             deck_key c \<noteq> deck_key (mk_card ACE SPADES)"
    by (simp add: remaining_DeckState_new deck_key_def mk_card_def)
  have b: "\<exists>c \<in> set (remaining_cards
                        (DeckState_new [mk_card TWO HEARTS, mk_card ACE SPADES] [] [])).
             deck_key c = deck_key (mk_card ACE SPADES)"
    by (simp add: remaining_DeckState_new deck_key_def mk_card_def)
  note t1 = deck_conservation
              [where ds = "DeckState_new [mk_card TWO HEARTS] [] []"
                 and crd = "mk_card ACE SPADES" and played = True
                 and ops = "[Remove_card (mk_card ACE SPADES) True,
                             Remove_cards [mk_card KING HEARTS, mk_card KING HEARTS] False,
                             Reset,
                             Remove_card (mk_card TWO CLUBS) False]"]
  note t2 = deck_conservation
              [where ds = "DeckState_new [mk_card TWO HEARTS, mk_card ACE SPADES] [] []"
                 and crd = "mk_card ACE SPADES" and played = False and ops = "[]"]
  from t1 have c1: "deck_composition
     (run_deck_ops (DeckState_new [] [] [])
        [Remove_card (mk_card ACE SPADES) True,
         Remove_cards [mk_card KING HEARTS, mk_card KING HEARTS] False,
         Reset,
         Remove_card (mk_card TWO CLUBS) False])
     = image_mset deck_key (mset create_standard_deck)"
    by (rule conjunct1)
  from t1 a have c2: "remove_card (DeckState_new [mk_card TWO HEARTS] [] []) (mk_card ACE SPADES) True
       = (False, DeckState_new [mk_card TWO HEARTS] [] [])"
    by blast
  from t2 b obtain r where
    "remove_card (DeckState_new [mk_card TWO HEARTS, mk_card ACE SPADES] [] [])
            (mk_card ACE SPADES) False = (True, r)"
    by blast
  then have c3: "fst (remove_card (DeckState_new [mk_card TWO HEARTS, mk_card ACE SPADES] [] [])
            (mk_card ACE SPADES) False) = True"
    by simp
  from c1 c2 c3 show ?thesis by (intro conjI)
qed

text \<open>
  C6 as stated fails for the construction \<^verbatim>\<open>from_known_cards\<close>: the cards of the hand are
  struck from the remaining pile and put on no pile, so the three piles no longer make up
  the standard deck.
\<close>

theorem from_known_cards_counterexample:
  "deck_composition (from_known_cards [mk_card ACE SPADES] [] [])
     \<noteq> image_mset deck_key (mset create_standard_deck)"
proof -
  let ?rem = "filter (\<lambda>c. (rank c, suit c) \<notin> {(ACE, SPADES)}) create_standard_deck"
  have "mk_card TWO SPADES \<in> set ?rem"
    using mk_card_in_deck [of TWO SPADES] by (simp add: mk_card_def)
  then have ne: "?rem \<noteq> []" by (metis empty_iff empty_set)
  have rem: "remaining_cards (from_known_cards [mk_card ACE SPADES] [] []) = ?rem"
    using ne by (simp add: from_known_cards_def remaining_DeckState_new mk_card_def)
  have pl: "cards_played (from_known_cards [mk_card ACE SPADES] [] []) = []"
           "cards_discarded (from_known_cards [mk_card ACE SPADES] [] []) = []"
    by (simp_all add: from_known_cards_def piles_DeckState_new)
  have "(ACE, SPADES) \<notin># deck_composition (from_known_cards [mk_card ACE SPADES] [] [])"
    unfolding deck_composition_def rem pl
    by (auto simp: deck_key_def)
  moreover have "(ACE, SPADES) \<in># image_mset deck_key (mset create_standard_deck)"
    using mk_card_in_deck [of ACE SPADES] by (force simp: deck_key_def mk_card_def)
  ultimately show ?thesis by metis
qed

section \<open>Facts about the probability module\<close>

lemma py_comb_nonneg: "0 \<le> n \<Longrightarrow> 0 \<le> k \<Longrightarrow> \<exists>c. py_comb n k = Inr c"
  by (simp add: py_comb_def)

lemma hypergeometric_pmf_total:
  assumes "0 \<le> k"
  shows "\<exists>p. hypergeometric_pmf K N n k = Inr p"
proof -
  consider "n > N" | "\<not> n > N" "k > K" | "\<not> n > N" "\<not> k > K" "k > n"
    | "\<not> n > N" "\<not> k > K" "\<not> k > n" "n - k > N - K"
    | "\<not> n > N" "\<not> k > K" "\<not> k > n" "\<not> n - k > N - K"
    by blast
  then show ?thesis
  proof cases
    case 5
    with assms have nn: "0 \<le> K" "0 \<le> N - K" "0 \<le> n - k" "0 \<le> N" "0 \<le> n" by linarith+
    from 5 assms nn show ?thesis
      by (simp add: hypergeometric_pmf_def py_comb_def Let_def)
  qed (simp_all add: hypergeometric_pmf_def)
qed

lemma sum_results_total:
  "(\<forall>r \<in> set rs. \<exists>p. r = Inr p) \<Longrightarrow> \<exists>s. sum_results acc rs = Inr s"
proof (induction rs arbitrary: acc)
  case Nil
  then show ?case by simp
next
  case (Cons r rs)
  then obtain p where "r = Inr p" by auto
  with Cons show ?case by simp
qed

lemma hypergeometric_cdf_at_least_total:
  "\<exists>p. hypergeometric_cdf_at_least K N n k = Inr p"
proof (cases "k \<le> 0")
  case True
  then show ?thesis by (simp add: hypergeometric_cdf_at_least_def)
next
  case False
  have "\<forall>r \<in> set (map (\<lambda>i. hypergeometric_pmf K N n (int i)) [0 ..< nat k]). \<exists>p. r = Inr p"
    using hypergeometric_pmf_total by auto
  from sum_results_total [OF this, of 0] obtain s where
    "sum_results 0 (map (\<lambda>i. hypergeometric_pmf K N n (int i)) [0 ..< nat k]) = Inr s"
    by blast
  with False show ?thesis by (simp add: hypergeometric_cdf_at_least_def)
qed

text \<open>The value entered for one suit by the loop of flush_completion_probability.\<close>

lemma flush_loop_eq:
  "flush_loop hand ds draws ss results
     = Inr (results @ map (\<lambda>s. (s, flush_entry hand ds draws s)) ss)"
proof (induction ss arbitrary: results)
  case Nil
  then show ?case by simp
next
  case (Cons s ss)
  define needed where "needed = max 0 (5 - hand_suits hand s)"
  obtain p where p: "hypergeometric_cdf_at_least (suit_count ds s) (total_remaining ds) draws
                       needed = Inr p"
    using hypergeometric_cdf_at_least_total by blast
  have e: "flush_entry hand ds draws s = (if needed = 0 then 1 else if needed > draws then 0 else p)"
    unfolding flush_entry_def Let_def needed_def [symmetric] by (simp add: p)
  have "flush_loop hand ds draws (s # ss) results
          = flush_loop hand ds draws ss (results @ [(s, flush_entry hand ds draws s)])"
    unfolding flush_loop.simps Let_def needed_def [symmetric] e by (simp add: p)
  then show ?case by (simp add: Cons.IH)
qed


lemma map_of_flush_entries:
  "map_of (map (\<lambda>s. (s, f s)) all_suits) s = Some (f s)"
  by (cases s) (simp_all add: all_suits_def)

lemma small_deck: "total_remaining (DeckState_new [mk_card TWO SPADES] [] []) = 1"
  by (simp add: total_remaining_def remaining_DeckState_new)

text \<open>
  The loop in closed form.  With draws not 0 and a non-empty remaining deck the function
  raises nothing and returns an entry for each suit, in the order of the enum; the entry
  is computed from the count of the \<^verbatim>\<open>suit\<close> fields of the hand that equal the suit.
\<close>

lemma flush_completion_probability_printed_suit:
  assumes "draws \<noteq> 0" and "total_remaining ds \<noteq> 0"
  shows "\<exists>res. flush_completion_probability hand ds draws = Inr res
           \<and> map fst res = all_suits
           \<and> (\<forall>s. \<exists>p. map_of res s = Some p
                 \<and> (let cards_in_hand = int (count_list (map suit hand) s);
                         needed = max 0 (5 - cards_in_hand)
                     in if needed = 0 then p = 1
                        else if needed > draws then p = 0
                        else hypergeometric_cdf_at_least (suit_count ds s) (total_remaining ds)
                               draws needed = Inr p))"
proof -
  let ?res = "map (\<lambda>s. (s, flush_entry hand ds draws s)) all_suits"
  have r: "flush_completion_probability hand ds draws = Inr ?res"
    using assms by (simp add: flush_completion_probability_def flush_loop_eq)
  have k: "map fst ?res = all_suits"
    by (simp add: comp_def)
  have e: "let cards_in_hand = int (count_list (map suit hand) s);
               needed = max 0 (5 - cards_in_hand)
           in if needed = 0 then flush_entry hand ds draws s = 1
              else if needed > draws then flush_entry hand ds draws s = 0
              else hypergeometric_cdf_at_least (suit_count ds s) (total_remaining ds)
                     draws needed = Inr (flush_entry hand ds draws s)" for s
  proof -
    define needed where "needed = max 0 (5 - int (count_list (map suit hand) s))"
    obtain p where p: "hypergeometric_cdf_at_least (suit_count ds s) (total_remaining ds) draws
                         needed = Inr p"
      using hypergeometric_cdf_at_least_total by blast
    have "flush_entry hand ds draws s = (if needed = 0 then 1 else if needed > draws then 0 else p)"
      unfolding flush_entry_def hand_suits_def Let_def needed_def [symmetric] by (simp add: p)
    then show ?thesis
      unfolding Let_def needed_def [symmetric] by (simp add: p)
  qed
  have a: "\<forall>s. \<exists>p. map_of ?res s = Some p
                 \<and> (let cards_in_hand = int (count_list (map suit hand) s);
                         needed = max 0 (5 - cards_in_hand)
                     in if needed = 0 then p = 1
                        else if needed > draws then p = 0
                        else hypergeometric_cdf_at_least (suit_count ds s) (total_remaining ds)
                               draws needed = Inr p)"
  proof (intro allI exI conjI)
    fix s
    show "map_of ?res s = Some (flush_entry hand ds draws s)"
      by (rule map_of_flush_entries)
    show "let cards_in_hand = int (count_list (map suit hand) s);
              needed = max 0 (5 - cards_in_hand)
          in if needed = 0 then flush_entry hand ds draws s = 1
             else if needed > draws then flush_entry hand ds draws s = 0
             else hypergeometric_cdf_at_least (suit_count ds s) (total_remaining ds)
                    draws needed = Inr (flush_entry hand ds draws s)"
      by (rule e)
  qed
  show ?thesis
    by (intro exI [of _ ?res] conjI r k a)
qed

lemma flush_completion_probability_printed_suit_example:
  "\<exists>res. flush_completion_probability (replicate 5 (mk_card TWO HEARTS))
            (DeckState_new [mk_card TWO SPADES] [] []) 1 = Inr res
         \<and> map_of res HEARTS = Some 1 \<and> map_of res SPADES = Some 0"
proof -
  let ?hand = "replicate 5 (mk_card TWO HEARTS)"
  let ?ds = "DeckState_new [mk_card TWO SPADES] [] []"
  have h: "(1::int) \<noteq> 0" "total_remaining ?ds \<noteq> 0"
    by (simp_all add: small_deck)
  obtain res where res: "flush_completion_probability ?hand ?ds 1 = Inr res"
    and all: "\<forall>s. \<exists>p. map_of res s = Some p
                 \<and> (let cards_in_hand = int (count_list (map suit ?hand) s);
                         needed = max 0 (5 - cards_in_hand)
                     in if needed = 0 then p = 1
                        else if needed > 1 then p = 0
                        else hypergeometric_cdf_at_least (suit_count ?ds s) (total_remaining ?ds)
                               1 needed = Inr p)"
    using flush_completion_probability_printed_suit [OF h, of ?hand] by blast
  have c: "count_list (map suit ?hand) HEARTS = 5" "count_list (map suit ?hand) SPADES = 0"
    by (simp_all add: mk_card_def numeral_eq_Suc)
  from all [rule_format, of HEARTS] have "map_of res HEARTS = Some 1"
    unfolding c Let_def by auto
  moreover from all [rule_format, of SPADES] have "map_of res SPADES = Some 0"
    unfolding c Let_def by auto
  ultimately show ?thesis using res by blast
qed

text \<open>
  C7.  The claim counts the cards of the hand that match the suit with wild cards
  matching every suit.  On a hand of five wild Twos of Hearts, with one draw and a deck
  of one card, that rule gives cards_in_hand = 5 and needed = 0 for Spades, hence
  probability 1; and the hand evaluator holds the same hand to be a flush (Flush Five).
  \<^verbatim>\<open>flush_completion_probability\<close> counts the \<^verbatim>\<open>suit\<close> fields instead and returns 0 for
  Spades, Clubs and Diamonds.
\<close>

theorem flush_completion_probability_wild_hearts:
  "flush_completion_probability (replicate 5 wild_heart)
       (DeckState_new [mk_card TWO SPADES] [] []) 1
     = Inr [(SPADES, 0), (HEARTS, 1), (CLUBS, 0), (DIAMONDS, 0)]
   \<and> spec_flush_probability (replicate 5 wild_heart)
         (DeckState_new [mk_card TWO SPADES] [] []) 1 SPADES = Inr 1
   \<and> map_sum id hand_type (evaluate_hand (replicate 5 wild_heart) 1) = Inr FLUSH_FIVE"
proof -
  let ?hand = "replicate 5 wild_heart"
  let ?ds = "DeckState_new [mk_card TWO SPADES] [] []"
  have hs: "hand_suits ?hand s = (if s = HEARTS then 5 else 0)" for s
    by (simp add: hand_suits_def wild_heart_def mk_card_def numeral_eq_Suc)
  have fe: "flush_entry ?hand ?ds 1 s = (if s = HEARTS then 1 else 0)" for s
    by (simp add: flush_entry_def hs)
  have "flush_completion_probability ?hand ?ds 1
          = Inr [(SPADES, 0), (HEARTS, 1), (CLUBS, 0), (DIAMONDS, 0)]"
    by (simp add: flush_completion_probability_def flush_loop_eq small_deck fe all_suits_def)
  moreover have "spec_flush_probability ?hand ?ds 1 SPADES = Inr 1"
    by (simp add: spec_flush_probability_def spec_cards_in_hand_def has_suit_def is_wild_def
        is_stone_def wild_heart_def mk_card_def numeral_eq_Suc)
  moreover have "map_sum id hand_type (evaluate_hand ?hand 1) = Inr FLUSH_FIVE"
    by (simp add: evaluate_hand_def wild_heart_def mk_card_def check_flush_def is_straight_def
      identify_hand_def counter_values_def sorted_desc_def is_wild_def numeral_eq_Suc Let_def)
  ultimately show ?thesis by (intro conjI)
qed

section \<open>Facts about the scoring engine\<close>






lemma evaluate_hand_two_of_spades:
  "evaluate_hand [mk_card TWO SPADES] 1
     = Inr \<lparr>hand_type = HIGH_CARD, scoring_cards = [mk_card TWO SPADES], base_chips = 7, base_mult = 1\<rparr>"
  by (simp add: evaluate_hand_def mk_card_def check_flush_def is_straight_def identify_hand_def
      counter_values_def sorted_desc_def chip_value_def Let_def)






lemma apply_card_modifiers_plain:
  "apply_card_modifiers rm (mk_card r s) rng
     = (\<lparr>ce_card = mk_card r s, ce_chips = 0, ce_mult = 0, ce_mult_mult = 1, ce_money = 0,
          ce_retrigger = 0, ce_destroyed = False\<rparr>, rng)"
  by (simp add: apply_card_modifiers_def mk_card_def)

lemma hand_levels_get_default: "hand_levels_get GameState_default ht = 1"
  by (simp add: hand_levels_get_def GameState_default_def)

lemmas embedded_calculators =
  calculate_effect_def JOKER_CALCULATORS_embedded_def create_instance_def
  JOKERS_joker_def JOKERS_throwback_def JOKERS_cavendish_def JOKERS_fortune_teller_def
  JOKERS_misprint_def joker_effect_def throwback_effect_def cavendish_effect_def
  fortune_teller_effect_def misprint_effect_def state_get_def JokerEffect_bool_def
  JokerEffect_default_def


lemma joker_loop_ignores_generator:
  assumes "\<forall>j \<in> set js. ignores_generator calcs j"
  shows "(case joker_loop calcs js ctx c m jeffs g1 vis of (c', m', jeffs', vis', g') \<Rightarrow> (c', m', jeffs', vis'))
       = (case joker_loop calcs js ctx c m jeffs g2 vis of (c', m', jeffs', vis', g') \<Rightarrow> (c', m', jeffs', vis'))"
  using assms
proof (induction js arbitrary: ctx c m jeffs g1 g2 vis)
  case Nil
  show ?case by simp
next
  case (Cons j js)
  obtain e1 j1 h1 where 1: "calculate_effect calcs j ctx g1 = (e1, j1, h1)"
    by (metis prod_cases3)
  obtain e2 j2 h2 where 2: "calculate_effect calcs j ctx g2 = (e2, j2, h2)"
    by (metis prod_cases3)
  from Cons.prems have "ignores_generator calcs j" by simp
  then have "fst (calculate_effect calcs j ctx g1) = fst (calculate_effect calcs j ctx g2)"
    and "fst (snd (calculate_effect calcs j ctx g1)) = fst (snd (calculate_effect calcs j ctx g2))"
    unfolding ignores_generator_def by blast+
  then have eq: "e2 = e1" "j2 = j1" by (simp_all add: 1 2)
  from Cons.prems have rest: "\<forall>j \<in> set js. ignores_generator calcs j" by simp
  show ?case
    by (simp add: 1 2 eq Let_def Cons.IH [OF rest, where ?g1.0 = h1 and ?g2.0 = h2])
qed

text \<open>
  Away from the calculators that draw from the module-level generator the scoring does
  not depend on that generator: whether \<^verbatim>\<open>calculate_score\<close> raises, and the breakdown
  and jokers it returns, are the same from every state of the generator.
\<close>

lemma calculate_score_pure:
  assumes "\<forall>j \<in> set jokers. ignores_generator calcs j"
  shows "drop_generator (calculate_score rm calcs played jokers gs cih seed g1)
       = drop_generator (calculate_score rm calcs played jokers gs cih seed g2)"
proof (cases "played = []")
  case True
  then show ?thesis by (simp add: calculate_score_def)
next
  case ne: False
  show ?thesis
  proof (cases "evaluate_hand played 1")
    case (Inl e)
    then show ?thesis by (simp add: calculate_score_def ne)
  next
    case h0: (Inr hr0)
    show ?thesis
    proof (cases "evaluate_hand played (hand_levels_get gs (hand_type hr0))")
      case (Inl e)
      then show ?thesis by (simp add: calculate_score_def ne h0)
    next
      case h: (Inr hr)
      obtain tc tm tmo ceffs destroyed where
        cl: "card_loop rm (scoring_cards hr) (map_option (Random_seeded rm) seed)
               (base_chips hr, real_of_int (base_mult hr), 0) [] [] = ((tc, tm, tmo), ceffs, destroyed)"
        by (metis prod_cases3)
      define hnd where "hnd = (case cih of None \<Rightarrow> [] | Some h \<Rightarrow> h)"
      define sm where "sm = steel_loop 1 hnd"
      define tm' where "tm' = (if sm \<noteq> 1 then tm * sm else tm)"
      define ctx where "ctx = \<lparr>ctx_played_cards = played, ctx_scoring_cards = scoring_cards hr,
         ctx_cards_in_hand = hnd, ctx_hand_result = hr, ctx_game_state = gs,
         ctx_current_chips = tc, ctx_current_mult = tm'\<rparr>"
      obtain c1 m1 je1 v1 k1 where l1: "joker_loop calcs jokers ctx tc tm' [] g1 [] = (c1, m1, je1, v1, k1)"
        by (metis prod_cases5)
      obtain c2 m2 je2 v2 k2 where l2: "joker_loop calcs jokers ctx tc tm' [] g2 [] = (c2, m2, je2, v2, k2)"
        by (metis prod_cases5)
      from joker_loop_ignores_generator [OF assms, of ctx tc tm' "[]" g1 "[]" g2]
      have eq: "c2 = c1" "m2 = m1" "je2 = je1" "v2 = v1"
        by (simp_all add: l1 l2)
      have r: "calculate_score rm calcs played jokers gs cih seed g
          = (case joker_loop calcs jokers ctx tc tm' [] g [] of
               (c', m', jeffs, js, g') \<Rightarrow>
                 Inr (\<lparr>sb_hand_type = hand_type hr, sb_base_chips = base_chips hr,
                        sb_base_mult = base_mult hr, card_effects = ceffs, joker_effects = jeffs,
                        money_earned = tmo, destroyed_cards = destroyed, final_chips = c',
                        final_mult = m', final_score = py_int (real_of_int c' * m')\<rparr>, js, g'))" for g
      proof (cases "sm = 1")
        case True
        then have t: "tm' = tm" by (simp add: tm'_def)
        show ?thesis
          unfolding t ctx_def
          by (simp add: calculate_score_def ne h0 h cl Let_def apply_steel_cards_in_hand_def
              hnd_def [symmetric] sm_def [symmetric] True split: prod.splits)
      next
        case False
        then have t: "tm' = tm * sm" by (simp add: tm'_def)
        show ?thesis
          unfolding t ctx_def
          by (simp add: calculate_score_def ne h0 h cl Let_def apply_steel_cards_in_hand_def
              hnd_def [symmetric] sm_def [symmetric] False split: prod.splits)
      qed
      show ?thesis
        by (simp add: r l1 l2 eq drop_generator_def)
    qed
  qed
qed

lemma calculate_score_pure_example:
  "drop_generator (calculate_score tape_random (JOKER_CALCULATORS_embedded tape_random)
       [mk_card TWO SPADES] [create_instance JOKERS_joker, throwback_one] GameState_default
       None (Some 0) [5])
   = drop_generator (calculate_score tape_random (JOKER_CALCULATORS_embedded tape_random)
       [mk_card TWO SPADES] [create_instance JOKERS_joker, throwback_one] GameState_default
       None (Some 0) [23])"
proof -
  have "\<forall>j \<in> set [create_instance JOKERS_joker, throwback_one].
          ignores_generator (JOKER_CALCULATORS_embedded tape_random) j"
    by (simp add: ignores_generator_def embedded_calculators throwback_one_def)
  then show ?thesis
    by (rule calculate_score_pure)
qed

text \<open>
  C2.  The claim makes \<^verbatim>\<open>calculate_score\<close> a pure function of (played cards, cards in
  hand, joker sequence, hand levels, rng_seed) for every catalogued joker.  The
  calculator of Misprint draws \<^verbatim>\<open>random.randint(0, 23)\<close> from the module-level generator,
  which \<^verbatim>\<open>rng_seed\<close> does not seed.  Two successive calls with the same inputs and the
  same seed, the second starting from the generator as the first one left it, return
  different breakdowns when the generator delivers 5 and then 23: final mult 6 and score
  42, then final mult 24 and score 168.
\<close>

theorem calculate_score_misprint:
  "calculate_score tape_random (JOKER_CALCULATORS_embedded tape_random)
       [mk_card TWO SPADES] [create_instance JOKERS_misprint] GameState_default
       None (Some 0) [5, 23]
     = Inr (\<lparr>sb_hand_type = HIGH_CARD, sb_base_chips = 7, sb_base_mult = 1,
              card_effects = [\<lparr>ce_card = mk_card TWO SPADES, ce_chips = 0, ce_mult = 0,
                                ce_mult_mult = 1, ce_money = 0, ce_retrigger = 0,
                                ce_destroyed = False\<rparr>],
              joker_effects = [(''Misprint'', 0, 5, 1)], money_earned = 0, destroyed_cards = [],
              final_chips = 7, final_mult = 6, final_score = 42\<rparr>,
            [create_instance JOKERS_misprint], [23])
   \<and> calculate_score tape_random (JOKER_CALCULATORS_embedded tape_random)
       [mk_card TWO SPADES] [create_instance JOKERS_misprint] GameState_default
       None (Some 0) [23]
     = Inr (\<lparr>sb_hand_type = HIGH_CARD, sb_base_chips = 7, sb_base_mult = 1,
              card_effects = [\<lparr>ce_card = mk_card TWO SPADES, ce_chips = 0, ce_mult = 0,
                                ce_mult_mult = 1, ce_money = 0, ce_retrigger = 0,
                                ce_destroyed = False\<rparr>],
              joker_effects = [(''Misprint'', 0, 23, 1)], money_earned = 0, destroyed_cards = [],
              final_chips = 7, final_mult = 24, final_score = 168\<rparr>,
            [create_instance JOKERS_misprint], [])"
  by (simp add: calculate_score_def evaluate_hand_two_of_spades
      hand_levels_get_default apply_card_modifiers_plain apply_steel_cards_in_hand_def
      embedded_calculators tape_random_def py_int_def)

section \<open>Facts about the game simulator\<close>

lemma handle_blind_beaten_final_boss:
  assumes "sim_blind_type sim = BOSS" "sim_ante sim = sim_max_ante sim"
    and "handle_blind_beaten rm sim bd = (res, sim')"
  shows "ar_won res \<and> ar_game_over res \<and> ar_blind_beaten res \<and> sim_phase sim' = GAME_OVER
         \<and> sim_ante sim' = sim_ante sim \<and> sim_max_ante sim' = sim_max_ante sim"
  using assms
  by (auto simp: handle_blind_beaten_def reshuffle_played_def Let_def split: prod.splits)

text \<open>
  C5.  The claim: when \<^verbatim>\<open>play_hand\<close> brings the accumulated chips to the chip requirement
  on the Boss blind of the last ante (ante = max_ante), the result has won = true and
  \<^verbatim>\<open>is_won\<close> is true in the resulting state.  In the code every such play returns
  won = true and game_over = true and leaves the simulator in the phase GameOver, but it
  leaves the ante as it was, and \<^verbatim>\<open>is_won\<close>, which asks for ante > max_ante, is false in
  the resulting state.
\<close>

theorem play_hand_final_boss:
  assumes ph: "play_hand rm calcs sim card_indices g = Inr (res, sim', g')"
    and ok: "ar_success res"
    and beaten: "sim_current_chips sim + ar_score res \<ge> sim_blind_chips sim"
    and boss: "sim_blind_type sim = BOSS"
    and last: "sim_ante sim = sim_max_ante sim"
  shows "ar_won res \<and> ar_game_over res \<and> is_game_over sim' \<and> sim_ante sim' = sim_ante sim \<and> \<not> is_won sim'"
proof -
  let ?cards = "map (\<lambda>i. sim_hand sim ! nat i) (sorted_desc card_indices)"
  let ?sim1 = "sim\<lparr>sim_hand := pop_indices card_indices (sim_hand sim)\<rparr>"
  let ?gs = "GameState_default\<lparr>gs_hand_levels := sim_hand_levels ?sim1,
                           gs_discards_remaining := sim_discards_remaining ?sim1\<rparr>"
  from ph ok have guards: "sim_phase sim = PLAYING" "\<not> sim_hands_remaining sim \<le> 0" "card_indices \<noteq> []"
    "\<not> length card_indices > 5"
    "\<not> (\<exists>i \<in> set card_indices. i < 0 \<or> i \<ge> int (length (sim_hand sim)))"
    "distinct card_indices"
    by (auto simp: play_hand_def ActionResult_new_def split: if_splits)
  from ph guards obtain bd js g1 where
    cs: "calculate_score rm calcs ?cards (sim_jokers sim)
           (GameState_default\<lparr>gs_hand_levels := sim_hand_levels sim,
                              gs_discards_remaining := sim_discards_remaining sim\<rparr>)
           (Some (pop_indices card_indices (sim_hand sim))) None g = Inr (bd, js, g1)"
    by (simp add: play_hand_def Let_def split: sum.splits prod.splits)
  define sim4 where "sim4 = (update_joker_states_after_play ?cards (?sim1\<lparr>sim_jokers := js\<rparr>))
     \<lparr>sim_current_chips := sim_current_chips sim + final_score bd,
      sim_hands_remaining := sim_hands_remaining sim - 1,
      sim_played_this_round := sim_played_this_round sim @ ?cards\<rparr>"
  have s4: "sim_blind_type sim4 = BOSS" "sim_ante sim4 = sim_ante sim" "sim_max_ante sim4 = sim_max_ante sim"
    "sim_current_chips sim4 = sim_current_chips sim + final_score bd" "sim_blind_chips sim4 = sim_blind_chips sim"
    by (simp_all add: sim4_def update_joker_states_after_play_def boss)
  have r: "play_hand rm calcs sim card_indices g
       = (if sim_current_chips sim4 \<ge> sim_blind_chips sim4
          then (let (res, sim) = handle_blind_beaten rm sim4 bd in Inr (res, sim, g1))
          else if sim_hands_remaining sim4 \<le> 0
          then Inr (\<lparr>ar_success = True,
                      ar_message = Scored_game_over (final_score bd) (sim_current_chips sim4) (sim_blind_chips sim4),
                      ar_score = final_score bd, ar_breakdown = Some bd, ar_blind_beaten = False,
                      ar_game_over = True, ar_won = False\<rparr>, sim4\<lparr>sim_phase := GAME_OVER\<rparr>, g1)
          else (let (drawn, sim) = draw_to_hand_size sim4
                in Inr (\<lparr>ar_success = True,
                          ar_message = Scored_hands_left (final_score bd) (sim_current_chips sim)
                                      (sim_blind_chips sim) (sim_hands_remaining sim),
                          ar_score = final_score bd, ar_breakdown = Some bd,
                          ar_blind_beaten = False, ar_game_over = False, ar_won = False\<rparr>, sim, g1)))"
    using guards
    by (simp add: play_hand_def cs Let_def sim4_def update_joker_states_after_play_def)
  have sc: "ar_score res = final_score bd"
    using ph unfolding r
    by (auto simp: handle_blind_beaten_def Let_def split: if_splits prod.splits)
  with beaten s4 have b: "sim_current_chips sim4 \<ge> sim_blind_chips sim4" by simp
  from ph b obtain hres hsim where h: "handle_blind_beaten rm sim4 bd = (hres, hsim)"
    and eq: "res = hres" "sim' = hsim"
    unfolding r by (auto split: prod.splits)
  from handle_blind_beaten_final_boss [OF s4(1) _ h] s4 last
  have "ar_won hres \<and> ar_game_over hres \<and> ar_blind_beaten hres \<and> sim_phase hsim = GAME_OVER
         \<and> sim_ante hsim = sim_ante sim4 \<and> sim_max_ante hsim = sim_max_ante sim4"
    by simp
  then show ?thesis
    using eq s4 last by (simp add: is_game_over_def is_won_def)
qed

lemma evaluate_hand_single:
  "evaluate_hand [mk_card r s] lvl
     = Inr \<lparr>hand_type = HIGH_CARD, scoring_cards = [mk_card r s],
            base_chips = 5 + (lvl - 1) * 5 + chip_value r, base_mult = 1 + (lvl - 1)\<rparr>"
  by (simp add: evaluate_hand_def mk_card_def check_flush_def is_straight_def identify_hand_def
      counter_values_def sorted_desc_def Let_def)

lemma calculate_score_single:
  "calculate_score rm calcs [mk_card r s] []
       (GameState_default\<lparr>gs_hand_levels := (\<lambda>ht. Some 1), gs_discards_remaining := d\<rparr>)
       (Some []) None g
     = Inr (\<lparr>sb_hand_type = HIGH_CARD, sb_base_chips = 5 + chip_value r, sb_base_mult = 1,
              card_effects = [\<lparr>ce_card = mk_card r s, ce_chips = 0, ce_mult = 0,
                                ce_mult_mult = 1, ce_money = 0, ce_retrigger = 0,
                                ce_destroyed = False\<rparr>],
              joker_effects = [], money_earned = 0, destroyed_cards = [],
              final_chips = 5 + chip_value r, final_mult = 1,
              final_score = 5 + chip_value r\<rparr>, [], g)"
proof -
  have l: "hand_levels_get (GameState_default\<lparr>gs_hand_levels := (\<lambda>ht. Some 1),
             gs_discards_remaining := d\<rparr>) ht = 1" for ht
    by (simp add: hand_levels_get_def)
  have p: "py_int (real_of_int (5 + chip_value r)) = 5 + chip_value r"
    by (simp add: py_int_def)
  show ?thesis
    using p
    by (simp add: calculate_score_def evaluate_hand_single l apply_card_modifiers_plain
        apply_steel_cards_in_hand_def)
qed

lemma play_hand_final_boss_sim:
  "play_hand tape_random calcs final_boss_sim [0] g
     = Inr (\<lparr>ar_success = True, ar_message = Scored_you_win 16 5, ar_score = 16,
              ar_breakdown = Some
                \<lparr>sb_hand_type = HIGH_CARD, sb_base_chips = 16, sb_base_mult = 1,
                 card_effects = [\<lparr>ce_card = mk_card ACE SPADES, ce_chips = 0, ce_mult = 0,
                                   ce_mult_mult = 1, ce_money = 0, ce_retrigger = 0,
                                   ce_destroyed = False\<rparr>],
                 joker_effects = [], money_earned = 0, destroyed_cards = [],
                 final_chips = 16, final_mult = 1, final_score = 16\<rparr>,
              ar_blind_beaten = True, ar_game_over = True, ar_won = True\<rparr>,
            final_boss_sim\<lparr>sim_deck := [mk_card KING HEARTS, mk_card ACE SPADES], sim_hand := [],
              sim_money := 9, sim_hands_remaining := 3, sim_current_chips := 9006,
              sim_phase := GAME_OVER\<rparr>, g)"
proof -
  have s: "sorted_desc [0] = [0]" by (simp add: sorted_desc_def)
  have c: "chip_value ACE = 11" by (simp add: chip_value_def)
  show ?thesis
    by (simp add: play_hand_def final_boss_sim_def s pop_indices_def calculate_score_single c
        update_joker_states_after_play_def handle_blind_beaten_def reshuffle_played_def
        tape_random_def)
qed

theorem play_hand_final_boss_witness:
  "play_hand tape_random (JOKER_CALCULATORS_embedded tape_random) final_boss_sim [0] []
     = Inr (\<lparr>ar_success = True, ar_message = Scored_you_win 16 5, ar_score = 16,
              ar_breakdown = Some
                \<lparr>sb_hand_type = HIGH_CARD, sb_base_chips = 16, sb_base_mult = 1,
                 card_effects = [\<lparr>ce_card = mk_card ACE SPADES, ce_chips = 0, ce_mult = 0,
                                   ce_mult_mult = 1, ce_money = 0, ce_retrigger = 0,
                                   ce_destroyed = False\<rparr>],
                 joker_effects = [], money_earned = 0, destroyed_cards = [],
                 final_chips = 16, final_mult = 1, final_score = 16\<rparr>,
              ar_blind_beaten = True, ar_game_over = True, ar_won = True\<rparr>,
            final_boss_sim\<lparr>sim_deck := [mk_card KING HEARTS, mk_card ACE SPADES], sim_hand := [],
              sim_money := 9, sim_hands_remaining := 3, sim_current_chips := 9006,
              sim_phase := GAME_OVER\<rparr>, [])
   \<and> is_game_over (final_boss_sim\<lparr>sim_deck := [mk_card KING HEARTS, mk_card ACE SPADES],
          sim_hand := [], sim_money := 9, sim_hands_remaining := 3, sim_current_chips := 9006,
          sim_phase := GAME_OVER\<rparr>)
   \<and> \<not> is_won (final_boss_sim\<lparr>sim_deck := [mk_card KING HEARTS, mk_card ACE SPADES],
          sim_hand := [], sim_money := 9, sim_hands_remaining := 3, sim_current_chips := 9006,
          sim_phase := GAME_OVER\<rparr>)"
proof -
  note e = play_hand_final_boss_sim [where calcs = "JOKER_CALCULATORS_embedded tape_random" and g = "[]"]
  have h: "sim_current_chips final_boss_sim + 16 \<ge> sim_blind_chips final_boss_sim"
    "sim_blind_type final_boss_sim = BOSS" "sim_ante final_boss_sim = sim_max_ante final_boss_sim"
    by (simp_all add: final_boss_sim_def)
  from play_hand_final_boss [OF e _ _ h(2,3)] h(1) e show ?thesis
    by simp
qed

text \<open>
  C4.  The claim: at clone time the piles of the clone equal those of the parent,
  including every card's enhancement, edition and seal.  In the code \<^verbatim>\<open>clone\<close> rebuilds
  every card of the deck, the hand and the played pile as \<^verbatim>\<open>Card(c.rank, c.suit)\<close>: for
  every simulator whose deck or hand is not empty the clone is the parent with the
  enhancement, edition and seal of every card of the three piles set to their defaults
  (the jokers with their states, the counters, the phase and the generator state are
  those of the parent).
\<close>

theorem clone_drops_modifiers:
  assumes "sim_deck self \<noteq> [] \<or> sim_hand self \<noteq> []"
  shows "clone rm fresh self
       = self\<lparr>sim_deck := map (\<lambda>c. mk_card (rank c) (suit c)) (sim_deck self),
              sim_hand := map (\<lambda>c. mk_card (rank c) (suit c)) (sim_hand self),
              sim_played_this_round :=
                map (\<lambda>c. mk_card (rank c) (suit c)) (sim_played_this_round self)\<rparr>"
proof -
  have j: "map (\<lambda>j. \<lparr>jdef = jdef j, state = state j\<rparr>) (sim_jokers self) = sim_jokers self"
    by (induction "sim_jokers self") (simp_all add: map_idI)
  show ?thesis
  proof (cases "sim_deck self = []")
    case True
    with assms have "sim_hand self \<noteq> []" by simp
    then show ?thesis
      by (simp add: clone_def post_init_def j Let_def)
  next
    case False
    then show ?thesis
      by (simp add: clone_def post_init_def j Let_def)
  qed
qed

theorem clone_drops_modifiers_witness:
  "clone tape_random [] glass_sim = glass_sim\<lparr>sim_hand := [mk_card ACE SPADES]\<rparr>
   \<and> sim_hand (clone tape_random [] glass_sim) \<noteq> sim_hand glass_sim
   \<and> clone tape_random [] glass_sim \<noteq> glass_sim"
proof -
  have h: "sim_deck glass_sim \<noteq> [] \<or> sim_hand glass_sim \<noteq> []"
    by (simp add: glass_sim_def final_boss_sim_def)
  have c: "clone tape_random [] glass_sim = glass_sim\<lparr>sim_hand := [mk_card ACE SPADES]\<rparr>"
    using clone_drops_modifiers [OF h, of tape_random "[]"]
    by (simp add: glass_sim_def final_boss_sim_def mk_card_def)
  have d: "sim_hand (clone tape_random [] glass_sim) \<noteq> sim_hand glass_sim"
    unfolding c by (simp add: glass_sim_def mk_card_def)
  then have "clone tape_random [] glass_sim \<noteq> glass_sim" by auto
  with c d show ?thesis by simp
qed

section \<open>Facts about the heuristics\<close>

















end
